theory Spec2Isabelle
  imports Complex_Main "HOL-Library.Sublist"
begin

section \<open>Shared vocabulary (package sandbox) and the Go runtime the executors talk to\<close>

text \<open>
  \<^verbatim>\<open>sandbox.ExecutionResult\<close>. \<^verbatim>\<open>Duration\<close> is a \<^verbatim>\<open>time.Duration\<close>, a count of
  nanoseconds.
\<close>

record ExecutionResult =
  Stdout :: string
  Stderr :: string
  ExitCode :: int
  Duration :: int

text \<open>
  Go errors. \<open>Errorf m\<close> is an error whose message is \<open>m\<close> (\<^verbatim>\<open>fmt.Errorf\<close> without
  \<^verbatim>\<open>%w\<close>, or an error handed over by the operating system); \<open>Wrapf p e\<close> is
  \<^verbatim>\<open>fmt.Errorf(p + "%w", e)\<close>, which keeps the wrapped error \<open>e\<close>.
\<close>

datatype error = Errorf string | Wrapf string error

fun Error :: "error \<Rightarrow> string" where
  "Error (Errorf m) = m"
| "Error (Wrapf p e) = p @ Error e"

text \<open>The innermost error of a chain of \<^verbatim>\<open>%w\<close> wrappings (repeated \<^verbatim>\<open>errors.Unwrap\<close>).\<close>

fun Cause :: "error \<Rightarrow> error" where
  "Cause (Errorf m) = Errorf m"
| "Cause (Wrapf p e) = Cause e"

text \<open>The error every executor builds with \<^verbatim>\<open>fmt.Errorf("unsupported language: %s", language)\<close>.\<close>

definition UnsupportedLanguage :: "string \<Rightarrow> error" where
  "UnsupportedLanguage language = Errorf (''unsupported language: '' @ language)"

text \<open>\<^verbatim>\<open>%d\<close> of \<^verbatim>\<open>fmt.Sprintf\<close>: the decimal digits of an integer.\<close>

definition digit :: "nat \<Rightarrow> char" where
  "digit d = ''0123456789'' ! d"

fun digits :: "nat \<Rightarrow> string" where
  "digits n = (if n < 10 then [digit n] else digits (n div 10) @ [digit (n mod 10)])"

declare digits.simps [simp del]

definition Sprintf_d :: "int \<Rightarrow> string" where
  "Sprintf_d i = (if i < 0 then CHR ''-'' # digits (nat (- i)) else digits (nat i))"

text \<open>\<^verbatim>\<open>time.Second\<close> and \<^verbatim>\<open>time.Millisecond\<close>, in nanoseconds.\<close>

definition Second :: int where
  "Second = 1000000000"

definition Millisecond :: int where
  "Millisecond = 1000000"

text \<open>
  \<^verbatim>\<open>path/filepath\<close> of the Go standard library, on a system whose separator is \<^verbatim>\<open>/\<close>.
  \<open>Ext\<close> follows the library's loop: scan from the end of the path up to the last
  separator, and return the suffix that starts at the first dot met. \<open>Join\<close>, \<open>Dir\<close>
  and \<open>Base\<close> are given for paths that are already clean (no empty, \<^verbatim>\<open>.\<close> or \<^verbatim>\<open>..\<close>
  element), which is what \<^verbatim>\<open>os.MkdirTemp\<close> returns.
\<close>

definition Ext :: "string \<Rightarrow> string" where
  "Ext path =
     (let r = rev path;
          pre = takeWhile (\<lambda>c. c \<noteq> CHR ''.'' \<and> c \<noteq> CHR ''/'') r
      in case drop (length pre) r of
           [] \<Rightarrow> []
         | c # _ \<Rightarrow> if c = CHR ''.'' then CHR ''.'' # rev pre else [])"

definition Join :: "string \<Rightarrow> string \<Rightarrow> string" where
  "Join dir name = dir @ ''/'' @ name"

definition Base :: "string \<Rightarrow> string" where
  "Base path = rev (takeWhile (\<lambda>c. c \<noteq> CHR ''/'') (rev path))"

definition Dir :: "string \<Rightarrow> string" where
  "Dir path =
     (let d = rev (drop 1 (dropWhile (\<lambda>c. c \<noteq> CHR ''/'') (rev path)))
      in if CHR ''/'' \<notin> set path then ''.'' else if d = [] then ''/'' else d)"

text \<open>
  What a child process started through \<^verbatim>\<open>exec.CommandContext\<close> gives back:
  the bytes of \<^verbatim>\<open>CombinedOutput\<close>, its error (none, an \<^verbatim>\<open>*exec.ExitError\<close> with its exit
  code, or any other error with its message), the value of \<^verbatim>\<open>ctx.Err()\<close> read after the
  call, and the time measured around the call.
\<close>

datatype cmd_error = CmdOk | ExitError int | OtherError string

datatype ctx_error = CtxOk | Canceled | DeadlineExceeded

record proc =
  proc_output :: string
  proc_err :: cmd_error
  proc_ctx :: ctx_error
  proc_elapsed :: int

text \<open>
  The operating system as the executors see it. \<open>MkdirTemp\<close> gets the name pattern,
  \<open>WriteFile\<close> the path and the contents (its result is the error, if any), and \<open>Run\<close>
  the deadline that \<^verbatim>\<open>context.WithTimeout\<close> added to the caller's context (none when the
  executor's timeout is not positive), the working directory set on the command (none when
  the code leaves it unset) and the argument vector. The caller's own context belongs to
  the environment too: \<open>proc_ctx\<close> is whatever \<^verbatim>\<open>ctx.Err()\<close> returns.
\<close>

record os =
  MkdirTemp :: "string \<Rightarrow> error + string"
  WriteFile :: "string \<Rightarrow> string \<Rightarrow> error option"
  Run :: "int option \<Rightarrow> string option \<Rightarrow> string list \<Rightarrow> proc"

text \<open>
  An executor call returns the argument vectors of the child processes it started, in
  order, next to Go's pair of result and error.
\<close>

type_synonym call = "string list list \<times> (error + ExecutionResult)"

text \<open>
  The block that \<^verbatim>\<open>LocalExecutor.ExecuteFile\<close>, \<^verbatim>\<open>SecureExecutor.ExecuteFile\<close>,
  \<^verbatim>\<open>ContainerizedExecutor.executeWithDocker\<close>, \<^verbatim>\<open>ContainerizedExecutor.executeLocally\<close>
  and \<^verbatim>\<open>DockerExecutor.runContainer\<close> each repeat after \<^verbatim>\<open>cmd.CombinedOutput()\<close>: the
  output becomes \<^verbatim>\<open>Stdout\<close>; an exceeded deadline is reported first; otherwise the
  exit code is read off the error.
\<close>

definition capture :: "proc \<Rightarrow> ExecutionResult" where
  "capture p =
     (let result = \<lparr>Stdout = proc_output p, Stderr = '''', ExitCode = 0, Duration = proc_elapsed p\<rparr>
      in if proc_ctx p = DeadlineExceeded
         then result\<lparr>Stderr := ''Execution timed out'', ExitCode := - 1\<rparr>
         else (case proc_err p of
                 ExitError code \<Rightarrow> result\<lparr>ExitCode := code\<rparr>
               | OtherError msg \<Rightarrow> result\<lparr>ExitCode := - 1, Stderr := msg\<rparr>
               | CmdOk \<Rightarrow> result\<lparr>ExitCode := 0\<rparr>))"

text \<open>
  \<^verbatim>\<open>if Timeout > 0 { ctx, cancel = context.WithTimeout(ctx, Timeout) }\<close>: the deadline
  the executor adds.
\<close>

definition withTimeout :: "int \<Rightarrow> int option" where
  "withTimeout timeout = (if timeout > 0 then Some timeout else None)"

text \<open>
  \<^verbatim>\<open>writeCodeToFile\<close>, the same text in \<^verbatim>\<open>LocalExecutor\<close>, \<^verbatim>\<open>SecureExecutor\<close>,
  \<^verbatim>\<open>ContainerizedExecutor\<close> and \<^verbatim>\<open>DockerExecutor\<close>.
\<close>

definition writeCodeToFile :: "os \<Rightarrow> string \<Rightarrow> string \<Rightarrow> string \<Rightarrow> error + string" where
  "writeCodeToFile w tempDir language code =
     (case (if language = ''python'' then Some ''main.py''
            else if language = ''go'' then Some ''main.go''
            else if language = ''javascript'' then Some ''main.js''
            else None) of
        None \<Rightarrow> Inl (UnsupportedLanguage language)
      | Some fileName \<Rightarrow>
          (let filePath = Join tempDir fileName
           in case WriteFile w filePath code of
                Some err \<Rightarrow> Inl err
              | None \<Rightarrow> Inr filePath))"

text \<open>\<^verbatim>\<open>getLanguageFromFile\<close> of the same four executors.\<close>

definition getLanguageFromFile :: "string \<Rightarrow> string" where
  "getLanguageFromFile filePath =
     (if Ext filePath = ''.py'' then ''python''
      else if Ext filePath = ''.go'' then ''go''
      else if Ext filePath = ''.js'' then ''javascript''
      else ''unknown'')"

text \<open>
  \<^verbatim>\<open>getCommandForLanguage\<close> of \<^verbatim>\<open>LocalExecutor\<close>, \<^verbatim>\<open>SecureExecutor\<close> and
  \<^verbatim>\<open>ContainerizedExecutor\<close>.
\<close>

definition getCommandForLanguage :: "string \<Rightarrow> string \<Rightarrow> error + string list" where
  "getCommandForLanguage language filePath =
     (if language = ''python'' then Inr [''python'', filePath]
      else if language = ''go'' then Inr [''go'', ''run'', filePath]
      else if language = ''javascript'' then Inr [''node'', filePath]
      else Inl (UnsupportedLanguage language))"

text \<open>\<^verbatim>\<open>getImageForLanguage\<close> of the container executors.\<close>

definition getImageForLanguage :: "string \<Rightarrow> string" where
  "getImageForLanguage language =
     (if language = ''python'' then ''python:3.9-alpine''
      else if language = ''go'' then ''golang:1.19-alpine''
      else if language = ''javascript'' then ''node:16-alpine''
      else ''alpine:latest'')"

section \<open>Package executor: the local executor\<close>

record LocalExecutor =
  Local_Timeout :: int
  Local_MemoryLimit :: int

definition NewLocalExecutor :: LocalExecutor where
  "NewLocalExecutor = \<lparr>Local_Timeout = 30 * Second, Local_MemoryLimit = 128\<rparr>"

definition Local_ExecuteFile :: "os \<Rightarrow> LocalExecutor \<Rightarrow> string \<Rightarrow> call" where
  "Local_ExecuteFile w e filePath =
     (let language = getLanguageFromFile filePath
      in case getCommandForLanguage language filePath of
           Inl err \<Rightarrow> ([], Inl (UnsupportedLanguage language))
         | Inr cmdArgs \<Rightarrow>
             ([cmdArgs], Inr (capture (Run w (withTimeout (Local_Timeout e)) None cmdArgs))))"

definition Local_Execute :: "os \<Rightarrow> LocalExecutor \<Rightarrow> string \<Rightarrow> string \<Rightarrow> call" where
  "Local_Execute w e language code =
     (case MkdirTemp w ''forgeai-*'' of
        Inl err \<Rightarrow> ([], Inl (Wrapf ''failed to create temp directory: '' err))
      | Inr tempDir \<Rightarrow>
          (case writeCodeToFile w tempDir language code of
             Inl err \<Rightarrow> ([], Inl (Wrapf ''failed to write code to file: '' err))
           | Inr filePath \<Rightarrow> Local_ExecuteFile w e filePath))"

definition Local_SupportedLanguages :: "string list" where
  "Local_SupportedLanguages = [''python'', ''go'', ''javascript'']"

section \<open>Package container: the generic executor shell\<close>

text \<open>
  \<^verbatim>\<open>container.ContainerExecutor\<close>. Its internal methods are the placeholders of the
  source: the temporary directory is a fixed path, nothing is written, every file counts as
  Python, every language counts as supported, and \<^verbatim>\<open>runContainer\<close> returns a canned result
  without starting anything.
\<close>

record ContainerExecutor =
  Container_Engine :: string
  Container_Timeout :: int
  Container_MemoryLimit :: int
  Container_CPUShares :: int
  Container_NetworkAccess :: bool
  Container_ReadOnlyRoot :: bool

record ContainerConfig =
  ContainerConfig_Image :: string
  ContainerConfig_Timeout :: int
  ContainerConfig_MemoryLimit :: int
  ContainerConfig_CPUShares :: int
  ContainerConfig_NetworkAccess :: bool
  ContainerConfig_ReadOnlyRoot :: bool
  ContainerConfig_FilePath :: string
  ContainerConfig_Language :: string

definition NewContainerExecutor :: ContainerExecutor where
  "NewContainerExecutor =
     \<lparr>Container_Engine = ''docker'', Container_Timeout = 30 * Second,
      Container_MemoryLimit = 128, Container_CPUShares = 100,
      Container_NetworkAccess = False, Container_ReadOnlyRoot = True\<rparr>"

definition Container_createTempDir :: "error + string" where
  "Container_createTempDir = Inr ''/tmp/forgeai-container''"

definition Container_getFileExtension :: "string \<Rightarrow> string" where
  "Container_getFileExtension language =
     (if language = ''python'' then ''py''
      else if language = ''go'' then ''go''
      else if language = ''javascript'' then ''js''
      else ''txt'')"

definition Container_writeCodeToFile :: "string \<Rightarrow> string \<Rightarrow> string \<Rightarrow> error + string" where
  "Container_writeCodeToFile tempDir language code =
     Inr (tempDir @ ''/main.'' @ Container_getFileExtension language)"

definition Container_getLanguageFromFile :: "string \<Rightarrow> string" where
  "Container_getLanguageFromFile filePath = ''python''"

definition Container_isLanguageSupported :: "string \<Rightarrow> bool" where
  "Container_isLanguageSupported language = True"

definition Container_runContainer :: "ContainerConfig \<Rightarrow> error + ExecutionResult" where
  "Container_runContainer config =
     Inr \<lparr>Stdout = ''Container execution would run '' @ ContainerConfig_Language config
                    @ '' code in '' @ ContainerConfig_Image config @ '' container'',
          Stderr = [], ExitCode = 0, Duration = 100 * Millisecond\<rparr>"

definition Container_ExecuteFile :: "ContainerExecutor \<Rightarrow> string \<Rightarrow> call" where
  "Container_ExecuteFile c filePath =
     (let language = Container_getLanguageFromFile filePath
      in if \<not> Container_isLanguageSupported language
         then ([], Inl (UnsupportedLanguage language))
         else
           (let img = getImageForLanguage language;
                config = \<lparr>ContainerConfig_Image = img,
                          ContainerConfig_Timeout = Container_Timeout c,
                          ContainerConfig_MemoryLimit = Container_MemoryLimit c,
                          ContainerConfig_CPUShares = Container_CPUShares c,
                          ContainerConfig_NetworkAccess = Container_NetworkAccess c,
                          ContainerConfig_ReadOnlyRoot = Container_ReadOnlyRoot c,
                          ContainerConfig_FilePath = filePath,
                          ContainerConfig_Language = language\<rparr>
            in case Container_runContainer config of
                 Inl err \<Rightarrow> ([], Inl (Wrapf ''container execution failed: '' err))
               | Inr result \<Rightarrow> ([], Inr result)))"

definition Container_Execute :: "ContainerExecutor \<Rightarrow> string \<Rightarrow> string \<Rightarrow> call" where
  "Container_Execute c language code =
     (case Container_createTempDir of
        Inl err \<Rightarrow> ([], Inl (Wrapf ''failed to create temp directory: '' err))
      | Inr tempDir \<Rightarrow>
          (case Container_writeCodeToFile tempDir language code of
             Inl err \<Rightarrow> ([], Inl (Wrapf ''failed to write code to file: '' err))
           | Inr filePath \<Rightarrow> Container_ExecuteFile c filePath))"

definition Container_SupportedLanguages :: "string list" where
  "Container_SupportedLanguages = [''python'', ''go'', ''javascript'']"

section \<open>Package container: the Docker executor\<close>

record DockerExecutor =
  Docker_Timeout :: int
  Docker_MemoryLimit :: int
  Docker_CPUShares :: int
  Docker_NetworkAccess :: bool
  Docker_ReadOnlyRoot :: bool

record DockerConfig =
  DockerConfig_Image :: string
  DockerConfig_Timeout :: int
  DockerConfig_MemoryLimit :: int
  DockerConfig_CPUShares :: int
  DockerConfig_NetworkAccess :: bool
  DockerConfig_ReadOnlyRoot :: bool
  DockerConfig_FilePath :: string
  DockerConfig_Language :: string

definition NewDockerExecutor :: DockerExecutor where
  "NewDockerExecutor =
     \<lparr>Docker_Timeout = 30 * Second, Docker_MemoryLimit = 128, Docker_CPUShares = 100,
      Docker_NetworkAccess = False, Docker_ReadOnlyRoot = True\<rparr>"

definition Docker_SupportedLanguages :: "string list" where
  "Docker_SupportedLanguages = [''python'', ''go'', ''javascript'']"

definition Docker_isLanguageSupported :: "string \<Rightarrow> bool" where
  "Docker_isLanguageSupported language = (language \<in> set Docker_SupportedLanguages)"

text \<open>
  The error value of \<^verbatim>\<open>cmd.Run()\<close>. An \<^verbatim>\<open>*exec.ExitError\<close> prints as the process state,
  \<^verbatim>\<open>exit status N\<close> for a process that exited by itself.
\<close>

definition run_error :: "proc \<Rightarrow> error option" where
  "run_error p =
     (case proc_err p of
        CmdOk \<Rightarrow> None
      | ExitError code \<Rightarrow> Some (Errorf (''exit status '' @ Sprintf_d code))
      | OtherError msg \<Rightarrow> Some (Errorf msg))"

text \<open>
  \<^verbatim>\<open>isDockerAvailable\<close> (of \<^verbatim>\<open>DockerExecutor\<close> and of \<^verbatim>\<open>ContainerizedExecutor\<close>) runs
  \<^verbatim>\<open>docker --version\<close> outside any context.
\<close>

definition isDockerAvailable :: "os \<Rightarrow> string list list \<times> bool" where
  "isDockerAvailable w =
     ([[''docker'', ''--version'']],
      run_error (Run w None None [''docker'', ''--version'']) = None)"

definition Docker_pullImage :: "os \<Rightarrow> int option \<Rightarrow> string \<Rightarrow> string list list \<times> error option" where
  "Docker_pullImage w deadline img =
     (let inspect = [''docker'', ''image'', ''inspect'', img];
          pull = [''docker'', ''pull'', img]
      in if run_error (Run w deadline None inspect) = None
         then ([inspect], None)
         else ([inspect, pull], run_error (Run w deadline None pull)))"

definition Docker_runContainer :: "os \<Rightarrow> int option \<Rightarrow> DockerConfig \<Rightarrow> call" where
  "Docker_runContainer w deadline config =
     (case isDockerAvailable w of (s1, available) \<Rightarrow>
        if \<not> available then (s1, Inl (Errorf ''docker is not available''))
        else
          (case Docker_pullImage w deadline (DockerConfig_Image config) of (s2, pulled) \<Rightarrow>
             (case pulled of
                Some err \<Rightarrow>
                  (s1 @ s2,
                   Inl (Wrapf (''failed to pull image '' @ DockerConfig_Image config @ '': '') err))
              | None \<Rightarrow>
                  (let dir = Dir (DockerConfig_FilePath config);
                       filename = Base (DockerConfig_FilePath config);
                       cmdArgs = [''docker'', ''run'', ''--rm'', ''-v'', dir @ '':/workspace'',
                                  ''-w'', ''/workspace''];
                       cmdArgs = (if DockerConfig_MemoryLimit config > 0
                                  then cmdArgs @ [''--memory'',
                                         Sprintf_d (DockerConfig_MemoryLimit config) @ ''m'']
                                  else cmdArgs);
                       cmdArgs = (if DockerConfig_CPUShares config > 0
                                  then cmdArgs @ [''--cpu-shares'',
                                         Sprintf_d (DockerConfig_CPUShares config)]
                                  else cmdArgs);
                       cmdArgs = (if DockerConfig_ReadOnlyRoot config
                                  then cmdArgs @ [''--read-only''] else cmdArgs);
                       cmdArgs = (if \<not> DockerConfig_NetworkAccess config
                                  then cmdArgs @ [''--network'', ''none''] else cmdArgs);
                       cmdArgs = cmdArgs @ [DockerConfig_Image config];
                       language = DockerConfig_Language config
                   in case (if language = ''python'' then Some [''python'', filename]
                            else if language = ''go'' then Some [''go'', ''run'', filename]
                            else if language = ''javascript'' then Some [''node'', filename]
                            else None) of
                        None \<Rightarrow> (s1 @ s2, Inl (UnsupportedLanguage language))
                      | Some command \<Rightarrow>
                          (s1 @ s2 @ [cmdArgs @ command],
                           Inr (capture (Run w deadline None (cmdArgs @ command))))))))"

definition Docker_ExecuteFile :: "os \<Rightarrow> DockerExecutor \<Rightarrow> string \<Rightarrow> call" where
  "Docker_ExecuteFile w d filePath =
     (let language = getLanguageFromFile filePath
      in if \<not> Docker_isLanguageSupported language
         then ([], Inl (UnsupportedLanguage language))
         else
           (let img = getImageForLanguage language;
                config = \<lparr>DockerConfig_Image = img,
                          DockerConfig_Timeout = Docker_Timeout d,
                          DockerConfig_MemoryLimit = Docker_MemoryLimit d,
                          DockerConfig_CPUShares = Docker_CPUShares d,
                          DockerConfig_NetworkAccess = Docker_NetworkAccess d,
                          DockerConfig_ReadOnlyRoot = Docker_ReadOnlyRoot d,
                          DockerConfig_FilePath = filePath,
                          DockerConfig_Language = language\<rparr>
            in case Docker_runContainer w (withTimeout (Docker_Timeout d)) config of
                 (spawned, Inl err) \<Rightarrow> (spawned, Inl (Wrapf ''container execution failed: '' err))
               | (spawned, Inr result) \<Rightarrow> (spawned, Inr result)))"

definition Docker_Execute :: "os \<Rightarrow> DockerExecutor \<Rightarrow> string \<Rightarrow> string \<Rightarrow> call" where
  "Docker_Execute w d language code =
     (case MkdirTemp w ''forgeai-docker-*'' of
        Inl err \<Rightarrow> ([], Inl (Wrapf ''failed to create temp directory: '' err))
      | Inr tempDir \<Rightarrow>
          (case writeCodeToFile w tempDir language code of
             Inl err \<Rightarrow> ([], Inl (Wrapf ''failed to write code to file: '' err))
           | Inr filePath \<Rightarrow> Docker_ExecuteFile w d filePath))"

section \<open>Package security: the secure local and the containerized executors\<close>

record SecureExecutor =
  Secure_Timeout :: int
  Secure_MemoryLimit :: int

definition NewSecureExecutor :: SecureExecutor where
  "NewSecureExecutor = \<lparr>Secure_Timeout = 10 * Second, Secure_MemoryLimit = 128\<rparr>"

text \<open>Both branches of the test on \<^verbatim>\<open>runtime.GOOS\<close> set \<^verbatim>\<open>cmd.Dir\<close> to the file's directory.\<close>

definition Secure_ExecuteFile :: "os \<Rightarrow> SecureExecutor \<Rightarrow> string \<Rightarrow> call" where
  "Secure_ExecuteFile w se filePath =
     (let language = getLanguageFromFile filePath
      in case getCommandForLanguage language filePath of
           Inl err \<Rightarrow> ([], Inl (UnsupportedLanguage language))
         | Inr cmdArgs \<Rightarrow>
             ([cmdArgs],
              Inr (capture (Run w (withTimeout (Secure_Timeout se)) (Some (Dir filePath)) cmdArgs))))"

definition Secure_Execute :: "os \<Rightarrow> SecureExecutor \<Rightarrow> string \<Rightarrow> string \<Rightarrow> call" where
  "Secure_Execute w se language code =
     (case MkdirTemp w ''forgeai-secure-*'' of
        Inl err \<Rightarrow> ([], Inl (Wrapf ''failed to create temp directory: '' err))
      | Inr tempDir \<Rightarrow>
          (case writeCodeToFile w tempDir language code of
             Inl err \<Rightarrow> ([], Inl (Wrapf ''failed to write code to file: '' err))
           | Inr filePath \<Rightarrow> Secure_ExecuteFile w se filePath))"

record ContainerizedExecutor =
  Containerized_Timeout :: int
  Containerized_MemoryLimit :: int
  Containerized_EnableNetwork :: bool
  Containerized_ReadOnlyRoot :: bool

definition NewContainerizedExecutor :: ContainerizedExecutor where
  "NewContainerizedExecutor =
     \<lparr>Containerized_Timeout = 10 * Second, Containerized_MemoryLimit = 128,
      Containerized_EnableNetwork = False, Containerized_ReadOnlyRoot = True\<rparr>"

definition Containerized_executeWithDocker ::
    "os \<Rightarrow> ContainerizedExecutor \<Rightarrow> string \<Rightarrow> string \<Rightarrow> call" where
  "Containerized_executeWithDocker w ce language filePath =
     (let img = getImageForLanguage language;
          dir = Dir filePath;
          filename = Base filePath;
          cmdArgs = [''docker'', ''run'', ''--rm'', ''-v'', dir @ '':/workspace:ro'',
                     ''-w'', ''/workspace''];
          cmdArgs = (if Containerized_MemoryLimit ce > 0
                     then cmdArgs @ [''--memory'', Sprintf_d (Containerized_MemoryLimit ce) @ ''m'']
                     else cmdArgs);
          cmdArgs = cmdArgs @ [''--cpu-shares'', ''100''];
          cmdArgs = (if Containerized_ReadOnlyRoot ce
                     then cmdArgs @ [''--read-only'']
                                  @ [''--tmpfs'', ''/tmp:rw,noexec,nosuid,size=10m'']
                     else cmdArgs);
          cmdArgs = (if \<not> Containerized_EnableNetwork ce
                     then cmdArgs @ [''--network'', ''none''] else cmdArgs);
          cmdArgs = cmdArgs @ [''--user'', ''65534:65534''];
          cmdArgs = cmdArgs @ [img]
      in case (if language = ''python'' then Some [''python'', filename]
               else if language = ''go'' then Some [''go'', ''run'', filename]
               else if language = ''javascript'' then Some [''node'', filename]
               else None) of
           None \<Rightarrow> ([], Inl (UnsupportedLanguage language))
         | Some command \<Rightarrow>
             ([cmdArgs @ command],
              Inr (capture (Run w (withTimeout (Containerized_Timeout ce)) None
                              (cmdArgs @ command)))))"

definition Containerized_executeLocally ::
    "os \<Rightarrow> ContainerizedExecutor \<Rightarrow> string \<Rightarrow> string \<Rightarrow> call" where
  "Containerized_executeLocally w ce language filePath =
     (case getCommandForLanguage language filePath of
        Inl err \<Rightarrow> ([], Inl (UnsupportedLanguage language))
      | Inr cmdArgs \<Rightarrow>
          ([cmdArgs],
           Inr (capture (Run w (withTimeout (Containerized_Timeout ce)) (Some (Dir filePath))
                           cmdArgs))))"

definition Containerized_ExecuteFile :: "os \<Rightarrow> ContainerizedExecutor \<Rightarrow> string \<Rightarrow> call" where
  "Containerized_ExecuteFile w ce filePath =
     (let language = getLanguageFromFile filePath
      in case isDockerAvailable w of (s1, available) \<Rightarrow>
           (case (if \<not> available then Containerized_executeLocally w ce language filePath
                  else Containerized_executeWithDocker w ce language filePath) of
              (s2, r) \<Rightarrow> (s1 @ s2, r)))"

definition Containerized_Execute ::
    "os \<Rightarrow> ContainerizedExecutor \<Rightarrow> string \<Rightarrow> string \<Rightarrow> call" where
  "Containerized_Execute w ce language code =
     (case MkdirTemp w ''forgeai-container-*'' of
        Inl err \<Rightarrow> ([], Inl (Wrapf ''failed to create temp directory: '' err))
      | Inr tempDir \<Rightarrow>
          (case writeCodeToFile w tempDir language code of
             Inl err \<Rightarrow> ([], Inl (Wrapf ''failed to write code to file: '' err))
           | Inr filePath \<Rightarrow> Containerized_ExecuteFile w ce filePath))"

section \<open>Package plugin: external executors and the plugin manager\<close>

text \<open>
  The part of the file system and of \<^verbatim>\<open>encoding/json\<close> that plugin loading reads:
  \<open>ReadFile\<close> returns a file's bytes, \<open>NotExist\<close> says whether \<^verbatim>\<open>os.Stat\<close> fails with an
  error for which \<^verbatim>\<open>os.IsNotExist\<close> holds, \<open>ReadDir\<close> lists a directory as pairs of entry
  name and \<^verbatim>\<open>IsDir()\<close>; \<open>UnmarshalManifest\<close> and \<open>UnmarshalResult\<close> are \<^verbatim>\<open>json.Unmarshal\<close> at
  the two types it is called at.
\<close>

record Manifest =
  Manifest_Name :: string
  Manifest_Languages :: "string list"

record fs =
  ReadFile :: "string \<Rightarrow> error + string"
  NotExist :: "string \<Rightarrow> bool"
  ReadDir :: "string \<Rightarrow> error + (string \<times> bool) list"
  UnmarshalManifest :: "string \<Rightarrow> error + Manifest"
  UnmarshalResult :: "string \<Rightarrow> error + ExecutionResult"

record ExternalExecutor =
  binaryPath :: string
  languages :: "string list"

definition NewExternalExecutor :: "string \<Rightarrow> string list \<Rightarrow> ExternalExecutor" where
  "NewExternalExecutor path langs = \<lparr>binaryPath = path, languages = langs\<rparr>"

text \<open>
  \<^verbatim>\<open>ExternalExecutor.Execute\<close> and \<^verbatim>\<open>ExternalExecutor.ExecuteFile\<close> start the plugin binary
  under the caller's context, with no deadline of their own.
\<close>

definition External_Execute :: "os \<Rightarrow> fs \<Rightarrow> ExternalExecutor \<Rightarrow> string \<Rightarrow> string \<Rightarrow> call" where
  "External_Execute w f e language code =
     (let argv = [binaryPath e, ''execute'', language, code];
          p = Run w None None argv
      in case run_error p of
           Some err \<Rightarrow> ([argv], Inl (Wrapf ''failed to execute code: '' err))
         | None \<Rightarrow>
             (case UnmarshalResult f (proc_output p) of
                Inl err \<Rightarrow> ([argv], Inl (Wrapf ''failed to parse result: '' err))
              | Inr result \<Rightarrow> ([argv], Inr result)))"

definition External_ExecuteFile :: "os \<Rightarrow> fs \<Rightarrow> ExternalExecutor \<Rightarrow> string \<Rightarrow> call" where
  "External_ExecuteFile w f e filePath =
     (let argv = [binaryPath e, ''execute-file'', filePath];
          p = Run w None None argv
      in case run_error p of
           Some err \<Rightarrow> ([argv], Inl (Wrapf ''failed to execute file: '' err))
         | None \<Rightarrow>
             (case UnmarshalResult f (proc_output p) of
                Inl err \<Rightarrow> ([argv], Inl (Wrapf ''failed to parse result: '' err))
              | Inr result \<Rightarrow> ([argv], Inr result)))"

definition External_SupportedLanguages :: "ExternalExecutor \<Rightarrow> string list" where
  "External_SupportedLanguages e = languages e"

text \<open>\<^verbatim>\<open>Manager.plugins\<close>, a Go map from language tag to executor.\<close>

record Manager =
  plugins :: "string \<rightharpoonup> ExternalExecutor"

definition NewManager :: Manager where
  "NewManager = \<lparr>plugins = Map.empty\<rparr>"

text \<open>
  The first part of \<^verbatim>\<open>Manager.LoadPlugin\<close>, up to \<^verbatim>\<open>NewExternalExecutor\<close>: read and
  parse the manifest, find the binary (the bare name, then the name with \<^verbatim>\<open>.exe\<close>).
\<close>

definition LoadPlugin_executor :: "fs \<Rightarrow> string \<Rightarrow> error + ExternalExecutor" where
  "LoadPlugin_executor f pluginDir =
     (case ReadFile f (Join pluginDir ''manifest.json'') of
        Inl err \<Rightarrow> Inl (Wrapf ''failed to read manifest: '' err)
      | Inr manifestData \<Rightarrow>
          (case UnmarshalManifest f manifestData of
             Inl err \<Rightarrow> Inl (Wrapf ''failed to parse manifest: '' err)
           | Inr manifest \<Rightarrow>
               (let name = Manifest_Name manifest
                in if NotExist f (Join pluginDir name)
                   then if NotExist f (Join pluginDir (name @ ''.exe''))
                        then Inl (Errorf (''plugin executable not found: '' @ name @ '' or ''
                                           @ name @ ''.exe''))
                        else Inr (NewExternalExecutor (Join pluginDir (name @ ''.exe''))
                                    (Manifest_Languages manifest))
                   else Inr (NewExternalExecutor (Join pluginDir name)
                               (Manifest_Languages manifest)))))"

text \<open>The loop \<^verbatim>\<open>for _, lang := range manifest.Languages { m.plugins[lang] = executor }\<close>.\<close>

definition register :: "ExternalExecutor \<Rightarrow> Manager \<Rightarrow> Manager" where
  "register executor m =
     m\<lparr>plugins := fold (\<lambda>lang p. p(lang \<mapsto> executor)) (languages executor) (plugins m)\<rparr>"

definition LoadPlugin :: "fs \<Rightarrow> string \<Rightarrow> Manager \<Rightarrow> error option \<times> Manager" where
  "LoadPlugin f pluginDir m =
     (case LoadPlugin_executor f pluginDir of
        Inl err \<Rightarrow> (Some err, m)
      | Inr executor \<Rightarrow> (None, register executor m))"

text \<open>
  \<^verbatim>\<open>Manager.LoadPluginsFromDir\<close>: a missing directory loads nothing and is no error; a
  plugin that fails to load is skipped with a printed warning.
\<close>

definition LoadPluginsFromDir :: "fs \<Rightarrow> string \<Rightarrow> Manager \<Rightarrow> error option \<times> Manager" where
  "LoadPluginsFromDir f dir m =
     (if NotExist f dir then (None, m)
      else case ReadDir f dir of
             Inl err \<Rightarrow> (Some (Wrapf ''failed to read plugin directory: '' err), m)
           | Inr entries \<Rightarrow>
               (None,
                fold (\<lambda>entry m. if snd entry then snd (LoadPlugin f (Join dir (fst entry)) m) else m)
                  entries m))"

definition GetExecutor :: "Manager \<Rightarrow> string \<Rightarrow> ExternalExecutor option" where
  "GetExecutor m language = plugins m language"

section \<open>Package cli: executor resolution and the composite executor\<close>

text \<open>The package-level flag variables.\<close>

record flags =
  jsonOutput :: bool
  containerized :: bool
  pluginDir :: string
  timeout :: int
  memoryLimit :: int

record CompositeExecutor =
  Composite_PluginManager :: Manager
  Composite_LocalExecutor :: LocalExecutor
  Composite_DockerExecutor :: DockerExecutor
  Composite_UseContainer :: bool

text \<open>The values of the interface \<^verbatim>\<open>sandbox.Executor\<close> that \<^verbatim>\<open>getExecutor\<close> returns.\<close>

datatype Executor =
    IsLocal LocalExecutor
  | IsDocker DockerExecutor
  | IsComposite CompositeExecutor

definition getExecutor :: "fs \<Rightarrow> flags \<Rightarrow> error + Executor" where
  "getExecutor f fl =
     (if pluginDir fl \<noteq> []
      then (case LoadPluginsFromDir f (pluginDir fl) NewManager of
              (Some err, manager) \<Rightarrow> Inl (Wrapf ''failed to load plugins: '' err)
            | (None, manager) \<Rightarrow>
                Inr (IsComposite
                       \<lparr>Composite_PluginManager = manager,
                        Composite_LocalExecutor = NewLocalExecutor,
                        Composite_DockerExecutor = NewDockerExecutor,
                        Composite_UseContainer = containerized fl\<rparr>))
      else if containerized fl
      then Inr (IsDocker (NewDockerExecutor\<lparr>Docker_Timeout := timeout fl,
                                             Docker_MemoryLimit := memoryLimit fl\<rparr>))
      else Inr (IsLocal (NewLocalExecutor\<lparr>Local_Timeout := timeout fl,
                                           Local_MemoryLimit := memoryLimit fl\<rparr>)))"

text \<open>
  \<^verbatim>\<open>CompositeExecutor.Execute\<close>. On the container path it first copies the local executor's
  limits into the Docker executor it holds; the updated composite is returned with the call.
\<close>

definition Composite_Execute ::
    "os \<Rightarrow> fs \<Rightarrow> CompositeExecutor \<Rightarrow> string \<Rightarrow> string \<Rightarrow> call \<times> CompositeExecutor" where
  "Composite_Execute w f c language code =
     (case GetExecutor (Composite_PluginManager c) language of
        Some executor \<Rightarrow> (External_Execute w f executor language code, c)
      | None \<Rightarrow>
          if Composite_UseContainer c
          then (let d = (Composite_DockerExecutor c)
                          \<lparr>Docker_Timeout := Local_Timeout (Composite_LocalExecutor c),
                           Docker_MemoryLimit := Local_MemoryLimit (Composite_LocalExecutor c)\<rparr>
                in (Docker_Execute w d language code, c\<lparr>Composite_DockerExecutor := d\<rparr>))
          else (Local_Execute w (Composite_LocalExecutor c) language code, c))"

text \<open>\<^verbatim>\<open>getLanguageFromFile\<close> of package cli, which also knows \<^verbatim>\<open>.rs\<close>.\<close>

definition cli_getLanguageFromFile :: "string \<Rightarrow> string" where
  "cli_getLanguageFromFile filePath =
     (if Ext filePath = ''.py'' then ''python''
      else if Ext filePath = ''.go'' then ''go''
      else if Ext filePath = ''.js'' then ''javascript''
      else if Ext filePath = ''.rs'' then ''rust''
      else ''unknown'')"

definition Composite_ExecuteFile ::
    "os \<Rightarrow> fs \<Rightarrow> CompositeExecutor \<Rightarrow> string \<Rightarrow> call \<times> CompositeExecutor" where
  "Composite_ExecuteFile w f c filePath =
     (let language = cli_getLanguageFromFile filePath
      in case GetExecutor (Composite_PluginManager c) language of
           Some executor \<Rightarrow> (External_ExecuteFile w f executor filePath, c)
         | None \<Rightarrow>
             if Composite_UseContainer c
             then (let d = (Composite_DockerExecutor c)
                             \<lparr>Docker_Timeout := Local_Timeout (Composite_LocalExecutor c),
                              Docker_MemoryLimit := Local_MemoryLimit (Composite_LocalExecutor c)\<rparr>
                   in (Docker_ExecuteFile w d filePath, c\<lparr>Composite_DockerExecutor := d\<rparr>))
             else (Local_ExecuteFile w (Composite_LocalExecutor c) filePath, c))"

text \<open>
  The dynamic dispatch of \<^verbatim>\<open>exec.Execute(context.Background(), language, code)\<close> in the
  \<^verbatim>\<open>run\<close> command, and the command's two steps.
\<close>

definition Executor_Execute :: "os \<Rightarrow> fs \<Rightarrow> Executor \<Rightarrow> string \<Rightarrow> string \<Rightarrow> call" where
  "Executor_Execute w f ex language code =
     (case ex of
        IsLocal e \<Rightarrow> Local_Execute w e language code
      | IsDocker d \<Rightarrow> Docker_Execute w d language code
      | IsComposite c \<Rightarrow> fst (Composite_Execute w f c language code))"

definition runCmd :: "os \<Rightarrow> fs \<Rightarrow> flags \<Rightarrow> string \<Rightarrow> string \<Rightarrow> call" where
  "runCmd w f fl language code =
     (case getExecutor f fl of
        Inl err \<Rightarrow> ([], Inl (Wrapf ''failed to get executor: '' err))
      | Inr ex \<Rightarrow>
          (case Executor_Execute w f ex language code of
             (spawned, Inl err) \<Rightarrow> (spawned, Inl (Wrapf ''failed to execute code: '' err))
           | (spawned, Inr result) \<Rightarrow> (spawned, Inr result)))"

section \<open>Package security: the test framework\<close>

record TestResult =
  ShouldBeContained :: bool
  ExpectedExitCode :: int
  ExpectedOutput :: string

record TestCase =
  TestCase_Name :: string
  TestCase_Code :: string
  TestCase_Language :: string
  TestCase_Description :: string
  TestCase_Category :: string
  ExpectedResult :: TestResult

record TestReport =
  Report_TestCase :: TestCase
  ActualResult :: "ExecutionResult option"
  Report_ExitCode :: int
  Report_Duration :: int
  Passed :: bool
  Report_Error :: "error option"

text \<open>The values of the interface \<^verbatim>\<open>security.Executor\<close> that the two harnesses build.\<close>

datatype security_Executor =
    IsSecure SecureExecutor
  | IsContainerized ContainerizedExecutor

definition security_Execute :: "os \<Rightarrow> security_Executor \<Rightarrow> string \<Rightarrow> string \<Rightarrow> call" where
  "security_Execute w ex language code =
     (case ex of
        IsSecure se \<Rightarrow> Secure_Execute w se language code
      | IsContainerized ce \<Rightarrow> Containerized_Execute w ce language code)"

record TestFramework =
  executor :: security_Executor
  tests :: "TestCase list"

definition newline :: char where
  "newline = CHR 0x0A"

definition NewTestFramework :: TestFramework where
  "NewTestFramework =
     \<lparr>executor = IsContainerized NewContainerizedExecutor,
      tests =
        [\<lparr>TestCase_Name = ''CPU Exhaustion - Infinite Loop'',
          TestCase_Code = ''while True: pass'',
          TestCase_Language = ''python'',
          TestCase_Description = ''Tests CPU exhaustion through infinite loop'',
          TestCase_Category = ''Resource Exhaustion'',
          ExpectedResult =
            \<lparr>ShouldBeContained = True, ExpectedExitCode = - 1, ExpectedOutput = []\<rparr>\<rparr>,
         \<lparr>TestCase_Name = ''Memory Exhaustion - Large List'',
          TestCase_Code = ''a = []; while True: a.append('x' * 1000000)'',
          TestCase_Language = ''python'',
          TestCase_Description = ''Tests memory exhaustion through large list allocation'',
          TestCase_Category = ''Resource Exhaustion'',
          ExpectedResult =
            \<lparr>ShouldBeContained = True, ExpectedExitCode = 1, ExpectedOutput = []\<rparr>\<rparr>,
         \<lparr>TestCase_Name = ''File System Access - Sensitive File'',
          TestCase_Code =
            ''try:'' @ [newline] @ ''    with open('/etc/passwd', 'r') as f:'' @ [newline]
            @ ''        print(f.read())'' @ [newline] @ ''except:'' @ [newline]
            @ ''    print('Access denied')'',
          TestCase_Language = ''python'',
          TestCase_Description = ''Tests file system access to sensitive files'',
          TestCase_Category = ''File System Attacks'',
          ExpectedResult =
            \<lparr>ShouldBeContained = True, ExpectedExitCode = 0,
             ExpectedOutput = ''Access denied''\<rparr>\<rparr>,
         \<lparr>TestCase_Name = ''Network Access - External Connection'',
          TestCase_Code =
            ''import socket'' @ [newline] @ ''try:'' @ [newline]
            @ ''    s = socket.socket(socket.AF_INET, socket.SOCK_STREAM)'' @ [newline]
            @ ''    s.connect(('google.com', 80))'' @ [newline]
            @ ''    print('Connection successful')'' @ [newline]
            @ ''    s.close()'' @ [newline] @ ''except:'' @ [newline]
            @ ''    print('Network access denied')'',
          TestCase_Language = ''python'',
          TestCase_Description = ''Tests network access to external sites'',
          TestCase_Category = ''Network Attacks'',
          ExpectedResult =
            \<lparr>ShouldBeContained = True, ExpectedExitCode = 0,
             ExpectedOutput = ''Network access denied''\<rparr>\<rparr>,
         \<lparr>TestCase_Name = ''Valid Code Execution'',
          TestCase_Code = ''print('Hello, World!')'',
          TestCase_Language = ''python'',
          TestCase_Description = ''Tests valid code execution'',
          TestCase_Category = ''Valid Execution'',
          ExpectedResult =
            \<lparr>ShouldBeContained = False, ExpectedExitCode = 0,
             ExpectedOutput = ''Hello, World!''\<rparr>\<rparr>]\<rparr>"

text \<open>\<^verbatim>\<open>strings.Contains(s, substr)\<close>: \<open>substr\<close> occurs in \<open>s\<close> as a contiguous run of bytes.\<close>

definition Contains :: "string \<Rightarrow> string \<Rightarrow> bool" where
  "Contains s substr = sublist substr s"

definition validateTestResult :: "TestCase \<Rightarrow> ExecutionResult \<Rightarrow> bool" where
  "validateTestResult test result =
     (let expected = ExpectedResult test
      in if ShouldBeContained expected
         then
           (if ExitCode result = - 1 then True
            else if ExitCode result \<noteq> 0 then True
            else if ExpectedOutput expected \<noteq> [] \<and> Stdout result \<noteq> []
                    \<and> (let stdout = (if length (Stdout result) > 0 \<and> last (Stdout result) = newline
                                      then butlast (Stdout result) else Stdout result)
                        in Contains stdout (ExpectedOutput expected)
                           \<or> stdout = ExpectedOutput expected)
                 then True
            else if Stderr result \<noteq> [] then True
            else False)
         else
           (if ExitCode result = ExpectedExitCode expected
            then (if ExpectedOutput expected \<noteq> []
                  then (if Contains (Stdout result) (ExpectedOutput expected)
                           \<or> Stdout result = ExpectedOutput expected
                        then True else False)
                  else True)
            else False))"

text \<open>
  \<^verbatim>\<open>TestFramework.RunTest\<close>; \<open>elapsed\<close> is the time measured around the executor call.
\<close>

definition RunTest :: "os \<Rightarrow> int \<Rightarrow> TestFramework \<Rightarrow> TestCase \<Rightarrow> TestReport" where
  "RunTest w elapsed tf test =
     (let report = \<lparr>Report_TestCase = test, ActualResult = None, Report_ExitCode = 0,
                     Report_Duration = elapsed, Passed = False, Report_Error = None\<rparr>
      in case snd (security_Execute w (executor tf) (TestCase_Language test) (TestCase_Code test)) of
           Inl err \<Rightarrow>
             report\<lparr>Report_Error := Some err, Passed := ShouldBeContained (ExpectedResult test)\<rparr>
         | Inr result \<Rightarrow>
             report\<lparr>ActualResult := Some result, Report_ExitCode := ExitCode result,
                    Passed := validateTestResult test result\<rparr>)"

definition RunTests :: "os \<Rightarrow> (nat \<Rightarrow> int) \<Rightarrow> TestFramework \<Rightarrow> TestReport list" where
  "RunTests w elapsed tf = map (\<lambda>i. RunTest w (elapsed i) tf (tests tf ! i)) [0..<length (tests tf)]"

section \<open>Package performance: the timed measurement\<close>

text \<open>
  Go's \<^verbatim>\<open>int64\<close> arithmetic on \<^verbatim>\<open>time.Duration\<close>: sums wrap around, division truncates
  towards zero.
\<close>

definition wrap64 :: "int \<Rightarrow> int" where
  "wrap64 x = (x + 2 ^ 63) mod 2 ^ 64 - 2 ^ 63"

definition quot :: "int \<Rightarrow> int \<Rightarrow> int" where
  "quot a b = (if (a < 0) = (b < 0) then \<bar>a\<bar> div \<bar>b\<bar> else - (\<bar>a\<bar> div \<bar>b\<bar>))"

definition Hour :: int where
  "Hour = 3600 * Second"

text \<open>
  \<^verbatim>\<open>SuccessRate\<close> is a \<^verbatim>\<open>float64\<close> in the source. It only ever holds
  \<^verbatim>\<open>float64(n) / float64(10) * 100\<close> for a count \<open>n\<close> from 0 to 10, and for these eleven
  values the two rounded operations give the multiple of ten exactly, so the field is
  modelled by the real number.
\<close>

record PerformanceMetrics =
  Metrics_ExecutorName :: string
  Metrics_TestCaseName :: string
  TotalExecutions :: int
  SuccessfulExecutions :: int
  FailedExecutions :: int
  TotalTime :: int
  AverageTime :: int
  MinTime :: int
  MaxTime :: int
  SuccessRate :: real

record PerformanceTest =
  Test_Name :: string
  Test_Code :: string
  Test_Language :: string

definition numTests :: nat where
  "numTests = 10"

text \<open>
  What one goroutine of the timed loop does once it holds the mutex, with the duration it
  measured and the outcome of its executor call.
\<close>

definition record_run :: "int \<times> (error + ExecutionResult) \<Rightarrow> PerformanceMetrics \<Rightarrow> PerformanceMetrics" where
  "record_run obs metrics =
     (let execDuration = fst obs;
          metrics = (case snd obs of
                       Inl err \<Rightarrow> metrics\<lparr>FailedExecutions := FailedExecutions metrics + 1\<rparr>
                     | Inr result \<Rightarrow>
                         metrics\<lparr>SuccessfulExecutions := SuccessfulExecutions metrics + 1\<rparr>);
          metrics = metrics\<lparr>TotalTime := wrap64 (TotalTime metrics + execDuration)\<rparr>;
          metrics = (if execDuration < MinTime metrics
                     then metrics\<lparr>MinTime := execDuration\<rparr> else metrics);
          metrics = (if execDuration > MaxTime metrics
                     then metrics\<lparr>MaxTime := execDuration\<rparr> else metrics)
      in metrics)"

text \<open>
  \<^verbatim>\<open>PerformanceFramework.runPerformanceTest\<close>. \<open>warm\<close> gives the outcomes of the three
  warm-up calls, \<open>obs i\<close> the measurement of the goroutine that is the \<open>i\<close>-th to take the
  mutex: the ten goroutines update the metrics one at a time, in an order the scheduler
  chooses.
\<close>

definition runPerformanceTest ::
    "string \<Rightarrow> PerformanceTest \<Rightarrow> (nat \<Rightarrow> error + ExecutionResult)
       \<Rightarrow> (nat \<Rightarrow> int \<times> (error + ExecutionResult)) \<Rightarrow> PerformanceMetrics" where
  "runPerformanceTest executorName test warm obs =
     (let metrics = \<lparr>Metrics_ExecutorName = executorName, Metrics_TestCaseName = Test_Name test,
                      TotalExecutions = 0, SuccessfulExecutions = 0, FailedExecutions = 0,
                      TotalTime = 0, AverageTime = 0, MinTime = Hour, MaxTime = 0,
                      SuccessRate = 0\<rparr>;
          metrics = fold (\<lambda>i metrics.
                            case warm i of
                              Inl err \<Rightarrow> metrics\<lparr>FailedExecutions := FailedExecutions metrics + 1\<rparr>
                            | Inr result \<Rightarrow>
                                metrics\<lparr>SuccessfulExecutions := SuccessfulExecutions metrics + 1\<rparr>)
                      [0..<3] metrics;
          metrics = metrics\<lparr>SuccessfulExecutions := 0, FailedExecutions := 0, TotalTime := 0\<rparr>;
          metrics = fold (\<lambda>i. record_run (obs i)) [0..<numTests] metrics;
          metrics = metrics\<lparr>TotalExecutions := int numTests\<rparr>;
          metrics = metrics\<lparr>AverageTime := quot (TotalTime metrics) (int numTests)\<rparr>;
          metrics = metrics\<lparr>SuccessRate :=
                      real_of_int (SuccessfulExecutions metrics) / real numTests * 100\<rparr>
      in metrics)"

section \<open>Package api: jobs, the job manager and the execute handlers\<close>

text \<open>
  A \<^verbatim>\<open>Job\<close>. The three time stamps are \<open>None\<close> while they hold Go's zero \<^verbatim>\<open>time.Time\<close>
  and otherwise the clock reading in nanoseconds.
\<close>

record Job =
  Job_ID :: string
  Job_Status :: string
  Job_Language :: string
  Job_Code :: string
  Job_FilePath :: string
  Job_Timeout :: int
  Job_MemoryLimit :: int
  Job_NetworkAccess :: bool
  Job_Result :: "ExecutionResult option"
  Job_Error :: string
  Job_CreatedAt :: "int option"
  Job_StartedAt :: "int option"
  Job_CompletedAt :: "int option"

text \<open>
  The job manager holds a Go map from job id to \<^verbatim>\<open>*Job\<close>, and the handlers and the worker
  goroutine keep the pointer they were given. \<open>heap\<close> lists the \<^verbatim>\<open>Job\<close> objects allocated so
  far, a pointer is an index into it, and \<open>jobs\<close> is the map.
\<close>

record JobManager =
  heap :: "Job list"
  jobs :: "string \<rightharpoonup> nat"

definition NewJobManager :: JobManager where
  "NewJobManager = \<lparr>heap = [], jobs = Map.empty\<rparr>"

text \<open>An assignment through a \<^verbatim>\<open>*Job\<close>.\<close>

definition modify :: "nat \<Rightarrow> (Job \<Rightarrow> Job) \<Rightarrow> JobManager \<Rightarrow> JobManager" where
  "modify p upd jm = jm\<lparr>heap := (heap jm)[p := upd (heap jm ! p)]\<rparr>"

text \<open>\<^verbatim>\<open>generateJobID\<close>, from the reading of \<^verbatim>\<open>time.Now().UnixNano()\<close>.\<close>

definition generateJobID :: "int \<Rightarrow> string" where
  "generateJobID nano = ''job-'' @ Sprintf_d nano"

text \<open>
  \<^verbatim>\<open>CreateJob\<close> and \<^verbatim>\<open>CreateFileJob\<close> read the clock twice, for the id and for
  \<^verbatim>\<open>CreatedAt\<close>; they return the pointer to the new job.
\<close>

definition CreateJob :: "int \<Rightarrow> int \<Rightarrow> string \<Rightarrow> string \<Rightarrow> JobManager \<Rightarrow> nat \<times> JobManager" where
  "CreateJob nano now language code jm =
     (let job = \<lparr>Job_ID = generateJobID nano, Job_Status = ''pending'',
                  Job_Language = language, Job_Code = code, Job_FilePath = [],
                  Job_Timeout = 30, Job_MemoryLimit = 128, Job_NetworkAccess = False,
                  Job_Result = None, Job_Error = [],
                  Job_CreatedAt = Some now, Job_StartedAt = None, Job_CompletedAt = None\<rparr>;
          p = length (heap jm)
      in (p, \<lparr>heap = heap jm @ [job], jobs = (jobs jm)(Job_ID job \<mapsto> p)\<rparr>))"

definition CreateFileJob :: "int \<Rightarrow> int \<Rightarrow> string \<Rightarrow> JobManager \<Rightarrow> nat \<times> JobManager" where
  "CreateFileJob nano now filePath jm =
     (let job = \<lparr>Job_ID = generateJobID nano, Job_Status = ''pending'',
                  Job_Language = [], Job_Code = [], Job_FilePath = filePath,
                  Job_Timeout = 30, Job_MemoryLimit = 128, Job_NetworkAccess = False,
                  Job_Result = None, Job_Error = [],
                  Job_CreatedAt = Some now, Job_StartedAt = None, Job_CompletedAt = None\<rparr>;
          p = length (heap jm)
      in (p, \<lparr>heap = heap jm @ [job], jobs = (jobs jm)(Job_ID job \<mapsto> p)\<rparr>))"

definition GetJob :: "string \<Rightarrow> JobManager \<Rightarrow> nat option" where
  "GetJob jid jm = jobs jm jid"

text \<open>
  \<^verbatim>\<open>ListJobs\<close>. Go visits the keys of a map in an order of its choosing, each key once:
  \<open>ks\<close> is that order. The result is the slice of pointers.
\<close>

definition ListJobs :: "string list \<Rightarrow> string \<Rightarrow> string \<Rightarrow> JobManager \<Rightarrow> nat list" where
  "ListJobs ks status language jm =
     filter (\<lambda>p. (status = [] \<or> Job_Status (heap jm ! p) = status)
                \<and> (language = [] \<or> Job_Language (heap jm ! p) = language))
       (List.map_filter (jobs jm) ks)"

definition CancelJob :: "int \<Rightarrow> string \<Rightarrow> JobManager \<Rightarrow> bool \<times> JobManager" where
  "CancelJob now jid jm =
     (case jobs jm jid of
        None \<Rightarrow> (False, jm)
      | Some p \<Rightarrow>
          if Job_Status (heap jm ! p) = ''pending'' \<or> Job_Status (heap jm ! p) = ''running''
          then (True, modify p (\<lambda>job. job\<lparr>Job_Status := ''cancelled'',
                                           Job_CompletedAt := Some now\<rparr>) jm)
          else (False, jm))"

text \<open>
  \<^verbatim>\<open>ExecuteJob\<close> takes the lock twice, and other requests can be served between its parts.
  \<open>ExecuteJob_start\<close> is the first locked region, \<open>ExecuteJob_run\<close> the execution outside the
  lock, \<open>ExecuteJob_finish\<close> the second locked region.
\<close>

definition ExecuteJob_start :: "int \<Rightarrow> nat \<Rightarrow> JobManager \<Rightarrow> JobManager" where
  "ExecuteJob_start now p jm =
     modify p (\<lambda>job. job\<lparr>Job_Status := ''running'', Job_StartedAt := Some now\<rparr>) jm"

definition ExecuteJob_run :: "os \<Rightarrow> Job \<Rightarrow> call" where
  "ExecuteJob_run w job =
     (let exec = NewLocalExecutor\<lparr>Local_Timeout := wrap64 (Job_Timeout job * Second),
                                  Local_MemoryLimit := Job_MemoryLimit job\<rparr>
      in if Job_Code job \<noteq> [] then Local_Execute w exec (Job_Language job) (Job_Code job)
         else if Job_FilePath job \<noteq> [] then Local_ExecuteFile w exec (Job_FilePath job)
         else ([], Inl (Errorf ''invalid job: no code or file path'')))"

definition ExecuteJob_finish :: "int \<Rightarrow> nat \<Rightarrow> error + ExecutionResult \<Rightarrow> JobManager \<Rightarrow> JobManager" where
  "ExecuteJob_finish now p outcome jm =
     modify p (\<lambda>job.
        (case outcome of
           Inl err \<Rightarrow> job\<lparr>Job_CompletedAt := Some now, Job_Status := ''failed'',
                         Job_Error := Error err\<rparr>
         | Inr result \<Rightarrow> job\<lparr>Job_CompletedAt := Some now, Job_Status := ''completed'',
                            Job_Result := Some result\<rparr>)) jm"

text \<open>\<^verbatim>\<open>ExecuteJob\<close> when nothing else runs between its parts.\<close>

definition ExecuteJob :: "os \<Rightarrow> int \<Rightarrow> int \<Rightarrow> nat \<Rightarrow> JobManager \<Rightarrow> JobManager" where
  "ExecuteJob w started completed p jm =
     (let jm = ExecuteJob_start started p jm
      in ExecuteJob_finish completed p (snd (ExecuteJob_run w (heap jm ! p))) jm)"

text \<open>
  The request structs of the two execute handlers, as \<^verbatim>\<open>c.ShouldBindJSON\<close> fills them, and
  how \<^verbatim>\<open>encoding/json\<close> fills an integer field: a field the body omits keeps Go's zero value.
\<close>

record ExecuteCodeRequest =
  req_Language :: string
  req_Code :: string
  req_Timeout :: int
  req_MemoryLimit :: int
  req_NetworkAccess :: bool

record ExecuteFileRequest =
  freq_FilePath :: string
  freq_Timeout :: int
  freq_MemoryLimit :: int
  freq_NetworkAccess :: bool

definition json_int :: "int option \<Rightarrow> int" where
  "json_int field = (case field of None \<Rightarrow> 0 | Some n \<Rightarrow> n)"

text \<open>An HTTP response: the status code and the fields of the JSON body.\<close>

datatype response = JSON nat "(string \<times> string) list"

text \<open>
  \<^verbatim>\<open>handleExecuteCode\<close> and \<^verbatim>\<open>handleExecuteFile\<close>. \<open>bound\<close> is the outcome of
  \<^verbatim>\<open>ShouldBindJSON\<close>. Next to the response and the new state the handlers return the pointer
  handed to \<^verbatim>\<open>go s.jobManager.ExecuteJob(job)\<close>, if a job was created.
\<close>

definition handleExecuteCode ::
    "int \<Rightarrow> int \<Rightarrow> error + ExecuteCodeRequest \<Rightarrow> JobManager \<Rightarrow> response \<times> nat option \<times> JobManager" where
  "handleExecuteCode nano now bound jm =
     (case bound of
        Inl err \<Rightarrow> (JSON 400 [(''error'', Error err)], None, jm)
      | Inr req \<Rightarrow>
          (let req = (if req_Timeout req = 0 then req\<lparr>req_Timeout := 30\<rparr> else req);
               req = (if req_MemoryLimit req = 0 then req\<lparr>req_MemoryLimit := 128\<rparr> else req)
           in case CreateJob nano now (req_Language req) (req_Code req) jm of
                (p, jm) \<Rightarrow>
                  (let jm = modify p (\<lambda>job. job\<lparr>Job_Timeout := req_Timeout req,
                                                  Job_MemoryLimit := req_MemoryLimit req,
                                                  Job_NetworkAccess := req_NetworkAccess req\<rparr>) jm
                   in (JSON 201 [(''job_id'', Job_ID (heap jm ! p)),
                                 (''status'', Job_Status (heap jm ! p))],
                       Some p, jm))))"

definition handleExecuteFile ::
    "int \<Rightarrow> int \<Rightarrow> error + ExecuteFileRequest \<Rightarrow> JobManager \<Rightarrow> response \<times> nat option \<times> JobManager" where
  "handleExecuteFile nano now bound jm =
     (case bound of
        Inl err \<Rightarrow> (JSON 400 [(''error'', Error err)], None, jm)
      | Inr req \<Rightarrow>
          (let req = (if freq_Timeout req = 0 then req\<lparr>freq_Timeout := 30\<rparr> else req);
               req = (if freq_MemoryLimit req = 0 then req\<lparr>freq_MemoryLimit := 128\<rparr> else req)
           in case CreateFileJob nano now (freq_FilePath req) jm of
                (p, jm) \<Rightarrow>
                  (let jm = modify p (\<lambda>job. job\<lparr>Job_Timeout := freq_Timeout req,
                                                  Job_MemoryLimit := freq_MemoryLimit req,
                                                  Job_NetworkAccess := freq_NetworkAccess req\<rparr>) jm
                   in (JSON 201 [(''job_id'', Job_ID (heap jm ! p)),
                                 (''status'', Job_Status (heap jm ! p))],
                       Some p, jm))))"

text \<open>
  What can happen to a job once its handler has returned: the worker's two locked regions
  and a \<^verbatim>\<open>DELETE /v1/jobs/{id}\<close> request, each with the clock reading it stamps. \<open>history\<close>
  lists the status of the job at pointer \<open>p\<close> before the first event and after each one.
\<close>

datatype event =
    Start int
  | Finish int "error + ExecutionResult"
  | Cancel int

fun step :: "string \<Rightarrow> nat \<Rightarrow> event \<Rightarrow> JobManager \<Rightarrow> JobManager" where
  "step jid p (Start now) jm = ExecuteJob_start now p jm"
| "step jid p (Finish now outcome) jm = ExecuteJob_finish now p outcome jm"
| "step jid p (Cancel now) jm = snd (CancelJob now jid jm)"

fun history :: "string \<Rightarrow> nat \<Rightarrow> event list \<Rightarrow> JobManager \<Rightarrow> string list" where
  "history jid p [] jm = [Job_Status (heap jm ! p)]"
| "history jid p (e # es) jm = Job_Status (heap jm ! p) # history jid p es (step jid p e jm)"

section \<open>Helpers for stating the properties, and concrete inputs\<close>

text \<open>
  The normalisation \<^verbatim>\<open>validateTestResult\<close> applies to the captured output before it looks
  for the expected text: one trailing newline is dropped.
\<close>

definition trimNewline :: "string \<Rightarrow> string" where
  "trimNewline s = (if length s > 0 \<and> last s = newline then butlast s else s)"

text \<open>A child that exits at once with status 0 and no output.\<close>

definition quiet_proc :: proc where
  "quiet_proc = \<lparr>proc_output = [], proc_err = CmdOk, proc_ctx = CtxOk, proc_elapsed = 0\<rparr>"

text \<open>A system on which no temporary directory can be created.\<close>

definition full_disk :: os where
  "full_disk =
     \<lparr>MkdirTemp = (\<lambda>pattern. Inl (Errorf ''mkdir /tmp/forgeai: no space left on device'')),
      WriteFile = (\<lambda>path contents. None),
      Run = (\<lambda>deadline dir argv. quiet_proc)\<rparr>"

text \<open>
  A containment case whose expected text ends in a newline, and the result of a program that
  prints exactly that text and exits with status 0.
\<close>

definition newline_case :: TestCase where
  "newline_case =
     \<lparr>TestCase_Name = ''Denied'', TestCase_Code = ''print('denied')'',
      TestCase_Language = ''python'', TestCase_Description = [], TestCase_Category = [],
      ExpectedResult = \<lparr>ShouldBeContained = True, ExpectedExitCode = 0,
                        ExpectedOutput = ''denied'' @ [newline]\<rparr>\<rparr>"

definition newline_result :: ExecutionResult where
  "newline_result = \<lparr>Stdout = ''denied'' @ [newline], Stderr = [], ExitCode = 0, Duration = 5\<rparr>"

definition denied_result :: ExecutionResult where
  "denied_result =
     \<lparr>Stdout = ''Access denied'' @ [newline], Stderr = [], ExitCode = 0, Duration = 5\<rparr>"

definition hello_result :: ExecutionResult where
  "hello_result =
     \<lparr>Stdout = ''Hello, World!'' @ [newline], Stderr = [], ExitCode = 0, Duration = 5\<rparr>"

text \<open>
  A first request to \<^verbatim>\<open>POST /v1/execute\<close> that leaves the limits out, and the state of a
  fresh server after its handler has returned (the clock read 1 for the id and 2 for the
  creation stamp).
\<close>

definition print_request :: ExecuteCodeRequest where
  "print_request =
     \<lparr>req_Language = ''python'', req_Code = ''print(1)'', req_Timeout = 0,
      req_MemoryLimit = 0, req_NetworkAccess = False\<rparr>"

definition one_job :: JobManager where
  "one_job = snd (snd (handleExecuteCode 1 2 (Inr print_request) NewJobManager))"

text \<open>
  A server with three jobs: a Python job that completed, a Go job that failed, and a file job
  still pending; and one order in which Go may visit the three keys.
\<close>

definition three_jobs :: JobManager where
  "three_jobs =
     \<lparr>heap =
        [\<lparr>Job_ID = ''job-1'', Job_Status = ''completed'',
          Job_Language = ''python'', Job_Code = ''print(1)'', Job_FilePath = [],
          Job_Timeout = 30, Job_MemoryLimit = 128, Job_NetworkAccess = False,
          Job_Result = Some hello_result, Job_Error = [],
          Job_CreatedAt = Some 2, Job_StartedAt = Some 7, Job_CompletedAt = Some 8\<rparr>,
         \<lparr>Job_ID = ''job-3'', Job_Status = ''failed'',
          Job_Language = ''go'', Job_Code = ''package main'', Job_FilePath = [],
          Job_Timeout = 30, Job_MemoryLimit = 128, Job_NetworkAccess = False,
          Job_Result = None, Job_Error = ''boom'',
          Job_CreatedAt = Some 4, Job_StartedAt = Some 9, Job_CompletedAt = Some 10\<rparr>,
         \<lparr>Job_ID = ''job-5'', Job_Status = ''pending'',
          Job_Language = [], Job_Code = [], Job_FilePath = ''main.py'',
          Job_Timeout = 10, Job_MemoryLimit = 64, Job_NetworkAccess = False,
          Job_Result = None, Job_Error = [],
          Job_CreatedAt = Some 6, Job_StartedAt = None, Job_CompletedAt = None\<rparr>],
      jobs = [''job-1'' \<mapsto> 0, ''job-3'' \<mapsto> 1, ''job-5'' \<mapsto> 2]\<rparr>"

definition visiting_order :: "string list" where
  "visiting_order = [''job-5'', ''job-1'', ''job-3'']"

text \<open>
  A plugin binary that prints the JSON object \<^verbatim>\<open>{}\<close> and exits with status 1, and a decoder
  that accepts this object (every field of the result keeps its zero value).
\<close>

definition zero_result :: ExecutionResult where
  "zero_result = \<lparr>Stdout = [], Stderr = [], ExitCode = 0, Duration = 0\<rparr>"

definition exit1_plugin :: os where
  "exit1_plugin =
     \<lparr>MkdirTemp = (\<lambda>pattern. Inr ''/tmp/forgeai-1''),
      WriteFile = (\<lambda>path contents. None),
      Run = (\<lambda>deadline dir argv.
               \<lparr>proc_output = ''{}'', proc_err = ExitError 1, proc_ctx = CtxOk, proc_elapsed = 9\<rparr>)\<rparr>"

definition no_plugins :: fs where
  "no_plugins =
     \<lparr>ReadFile = (\<lambda>path. Inl (Errorf ''no such file or directory'')),
      NotExist = (\<lambda>path. True),
      ReadDir = (\<lambda>path. Inl (Errorf ''no such file or directory'')),
      UnmarshalManifest = (\<lambda>bytes. Inl (Errorf ''unexpected end of JSON input'')),
      UnmarshalResult = (\<lambda>bytes. if bytes = ''{}'' then Inr zero_result
                                   else Inl (Errorf ''unexpected end of JSON input''))\<rparr>"

definition hello_plugin :: ExternalExecutor where
  "hello_plugin = \<lparr>binaryPath = ''plugins/hello/hello'', languages = [''hello'']\<rparr>"

text \<open>
  The result every execution path builds when the deadline has passed: the captured output,
  the fixed diagnostic and the exit code -1.
\<close>

definition timed_out :: "proc \<Rightarrow> ExecutionResult" where
  "timed_out p =
     \<lparr>Stdout = proc_output p, Stderr = ''Execution timed out'', ExitCode = - 1,
      Duration = proc_elapsed p\<rparr>"

text \<open>
  A system on which every child started under a deadline is still running when the deadline
  passes (it is killed, and \<^verbatim>\<open>ctx.Err()\<close> reads \<^verbatim>\<open>DeadlineExceeded\<close>).
\<close>

definition slow_child :: os where
  "slow_child =
     \<lparr>MkdirTemp = (\<lambda>pattern. Inr ''/tmp/forgeai-1''),
      WriteFile = (\<lambda>path contents. None),
      Run = (\<lambda>deadline dir argv.
               \<lparr>proc_output = ''partial output'', proc_err = ExitError (- 1),
                proc_ctx = (if deadline = None then CtxOk else DeadlineExceeded),
                proc_elapsed = (case deadline of None \<Rightarrow> 0 | Some d \<Rightarrow> d)\<rparr>)\<rparr>"

text \<open>
  Ten measurements for the performance harness, in milliseconds: 20, 21, 22, 50 (a failed
  call), 24, ..., 29.
\<close>

definition steady_runs :: "nat \<Rightarrow> int \<times> (error + ExecutionResult)" where
  "steady_runs i = (if i = 3 then (50 * Millisecond, Inl (Errorf ''boom''))
                    else (int (20 + i) * Millisecond, Inr hello_result))"

definition simple_print :: PerformanceTest where
  "simple_print = \<lparr>Test_Name = ''Simple Print'', Test_Code = ''print('Hello, World!')'',
                    Test_Language = ''python''\<rparr>"

text \<open>The canned result of the generic container shell.\<close>

definition placeholder_result :: ExecutionResult where
  "placeholder_result =
     \<lparr>Stdout = ''Container execution would run python code in python:3.9-alpine container'',
      Stderr = [], ExitCode = 0, Duration = 100 * Millisecond\<rparr>"

text \<open>
  The plugins that \<^verbatim>\<open>LoadPluginsFromDir\<close> loads from a directory, in the order of the
  directory listing, and the plugin that claims a language: the last one loaded whose
  manifest lists it.
\<close>

definition loaded_plugins :: "fs \<Rightarrow> string \<Rightarrow> ExternalExecutor list" where
  "loaded_plugins f dir =
     (if NotExist f dir then []
      else case ReadDir f dir of
             Inl err \<Rightarrow> []
           | Inr entries \<Rightarrow>
               List.map_filter
                 (\<lambda>entry. if snd entry
                           then (case LoadPlugin_executor f (Join dir (fst entry)) of
                                   Inl err \<Rightarrow> None
                                 | Inr e \<Rightarrow> Some e)
                           else None)
                 entries)"

definition plugin_for :: "fs \<Rightarrow> string \<Rightarrow> string \<Rightarrow> ExternalExecutor option" where
  "plugin_for f dir language =
     find (\<lambda>e. language \<in> set (languages e)) (rev (loaded_plugins f dir))"

text \<open>
  A plugin directory with one plugin, \<^verbatim>\<open>hello\<close>, whose manifest claims the languages
  \<^verbatim>\<open>hello\<close> and \<^verbatim>\<open>python\<close>, next to a plain file; and the flags
  \<^verbatim>\<open>--plugin-dir plugins --container\<close>.
\<close>

definition hello_manifest :: Manifest where
  "hello_manifest = \<lparr>Manifest_Name = ''hello'', Manifest_Languages = [''hello'', ''python'']\<rparr>"

definition one_plugin :: fs where
  "one_plugin =
     \<lparr>ReadFile = (\<lambda>path. if path = ''plugins/hello/manifest.json'' then Inr ''manifest''
                          else Inl (Errorf ''no such file or directory'')),
      NotExist = (\<lambda>path. path \<noteq> ''plugins'' \<and> path \<noteq> ''plugins/hello/hello''),
      ReadDir = (\<lambda>path. if path = ''plugins'' then Inr [(''hello'', True), (''README.md'', False)]
                         else Inl (Errorf ''not a directory'')),
      UnmarshalManifest = (\<lambda>bytes. if bytes = ''manifest'' then Inr hello_manifest
                                     else Inl (Errorf ''unexpected end of JSON input'')),
      UnmarshalResult = (\<lambda>bytes. if bytes = ''{}'' then Inr zero_result
                                   else Inl (Errorf ''unexpected end of JSON input''))\<rparr>"

definition plugin_flags :: flags where
  "plugin_flags =
     \<lparr>jsonOutput = False, containerized = True, pluginDir = ''plugins'',
      timeout = 5 * Second, memoryLimit = 64\<rparr>"

section \<open>Properties of the executors\<close>

subsection \<open>The adjudication rule of the security harness\<close>

lemma Contains_self: "Contains s s"
  by (simp add: Contains_def)

lemma Contains_Nil: "Contains [] e \<longleftrightarrow> e = []"
  by (simp add: Contains_def)

text \<open>
  C2, as the claim states it, fails: a containment case whose expected text ends in a
  newline, run on a program that prints exactly that text, exits with status 0 and writes no
  diagnostic, is not passed, although the captured output contains the expected text.
\<close>

theorem validateTestResult_trailing_newline_counterexample:
  "ShouldBeContained (ExpectedResult newline_case)
   \<and> ExpectedOutput (ExpectedResult newline_case) \<noteq> []
   \<and> Contains (Stdout newline_result) (ExpectedOutput (ExpectedResult newline_case))
   \<and> \<not> validateTestResult newline_case newline_result"
  by (simp add: newline_case_def newline_result_def validateTestResult_def Contains_def
      newline_def sublist_code)

text \<open>
  C2, amended: a case that expects containment is passed if and only if the exit code is
  -1, or the exit code is not 0, or the case declares an expected text and the captured
  output, with one trailing newline dropped, contains it, or the diagnostic text is not
  empty. A case that does not expect containment is passed if and only if the exit code
  equals the expected exit code and, when an expected text is declared, the captured output
  contains it.
\<close>

theorem validateTestResult_rule:
  "(ShouldBeContained (ExpectedResult test) \<longrightarrow>
      (validateTestResult test result \<longleftrightarrow>
         ExitCode result = - 1 \<or> ExitCode result \<noteq> 0
         \<or> (ExpectedOutput (ExpectedResult test) \<noteq> []
             \<and> Contains (trimNewline (Stdout result)) (ExpectedOutput (ExpectedResult test)))
         \<or> Stderr result \<noteq> []))
   \<and> (\<not> ShouldBeContained (ExpectedResult test) \<longrightarrow>
      (validateTestResult test result \<longleftrightarrow>
         ExitCode result = ExpectedExitCode (ExpectedResult test)
         \<and> (ExpectedOutput (ExpectedResult test) \<noteq> []
              \<longrightarrow> Contains (Stdout result) (ExpectedOutput (ExpectedResult test)))))"
proof (intro conjI impI)
  assume c: "ShouldBeContained (ExpectedResult test)"
  have e: "Stdout result = [] \<Longrightarrow> ExpectedOutput (ExpectedResult test) \<noteq> []
      \<Longrightarrow> \<not> Contains (trimNewline (Stdout result)) (ExpectedOutput (ExpectedResult test))"
    by (simp add: trimNewline_def Contains_Nil)
  show "validateTestResult test result \<longleftrightarrow>
         ExitCode result = - 1 \<or> ExitCode result \<noteq> 0
         \<or> (ExpectedOutput (ExpectedResult test) \<noteq> []
             \<and> Contains (trimNewline (Stdout result)) (ExpectedOutput (ExpectedResult test)))
         \<or> Stderr result \<noteq> []"
    using c e Contains_self [of "ExpectedOutput (ExpectedResult test)"]
    by (auto simp: validateTestResult_def Let_def trimNewline_def)
next
  assume c: "\<not> ShouldBeContained (ExpectedResult test)"
  show "validateTestResult test result \<longleftrightarrow>
         ExitCode result = ExpectedExitCode (ExpectedResult test)
         \<and> (ExpectedOutput (ExpectedResult test) \<noteq> []
              \<longrightarrow> Contains (Stdout result) (ExpectedOutput (ExpectedResult test)))"
    using c Contains_self [of "ExpectedOutput (ExpectedResult test)"]
    by (auto simp: validateTestResult_def Let_def)
qed

text \<open>
  The rule at two cases of the catalogue: the file-system case is passed on the output
  \<^verbatim>\<open>Access denied\<close>, the valid-code case on the output \<^verbatim>\<open>Hello, World!\<close>, both with exit
  code 0.
\<close>

theorem validateTestResult_rule_witness:
  "ShouldBeContained (ExpectedResult (tests NewTestFramework ! 2))
   \<and> validateTestResult (tests NewTestFramework ! 2) denied_result
   \<and> \<not> ShouldBeContained (ExpectedResult (tests NewTestFramework ! 4))
   \<and> validateTestResult (tests NewTestFramework ! 4) hello_result"
proof -
  have a: "ShouldBeContained (ExpectedResult (tests NewTestFramework ! 2))"
    by (simp add: NewTestFramework_def)
  have b: "\<not> ShouldBeContained (ExpectedResult (tests NewTestFramework ! 4))"
    by (simp add: NewTestFramework_def)
  have c: "ExpectedOutput (ExpectedResult (tests NewTestFramework ! 2)) = ''Access denied''"
    by (simp add: NewTestFramework_def)
  have d: "ExpectedOutput (ExpectedResult (tests NewTestFramework ! 4)) = ''Hello, World!''
           \<and> ExpectedExitCode (ExpectedResult (tests NewTestFramework ! 4)) = 0"
    by (simp add: NewTestFramework_def)
  have e: "Contains (trimNewline (Stdout denied_result)) ''Access denied''"
    by (simp add: denied_result_def trimNewline_def Contains_def)
  have f: "Contains (Stdout hello_result) ''Hello, World!''"
    by (simp add: hello_result_def Contains_def)
  have g: "ExitCode hello_result = 0"
    by (simp add: hello_result_def)
  from validateTestResult_rule [of "tests NewTestFramework ! 2" denied_result] a c e
  have "validateTestResult (tests NewTestFramework ! 2) denied_result"
    by simp
  moreover from validateTestResult_rule [of "tests NewTestFramework ! 4" hello_result] b d f g
  have "validateTestResult (tests NewTestFramework ! 4) hello_result"
    by simp
  ultimately show ?thesis
    using a b by simp
qed

subsection \<open>An executor call that fails inside the security harness\<close>

lemma full_disk_fails:
  "snd (security_Execute full_disk (executor NewTestFramework) language code)
     = Inl (Wrapf ''failed to create temp directory: ''
              (Errorf ''mkdir /tmp/forgeai: no space left on device''))"
  by (simp add: security_Execute_def NewTestFramework_def Containerized_Execute_def full_disk_def)

text \<open>
  C10: when the executor call of \<^verbatim>\<open>RunTest\<close> returns an error, the report carries that
  error and no result, and its passed flag equals the case's should-be-contained
  expectation. In the catalogue the first four cases expect containment and the valid-code
  case does not, so an execution error passes the former and fails the latter.
\<close>

theorem RunTest_execution_error:
  assumes "snd (security_Execute w (executor tf) (TestCase_Language test) (TestCase_Code test)) = Inl err"
  shows "Passed (RunTest w elapsed tf test) = ShouldBeContained (ExpectedResult test)
         \<and> ActualResult (RunTest w elapsed tf test) = None
         \<and> Report_Error (RunTest w elapsed tf test) = Some err
         \<and> map (\<lambda>t. ShouldBeContained (ExpectedResult t)) (tests NewTestFramework)
             = [True, True, True, True, False]"
  using assms by (simp add: RunTest_def NewTestFramework_def)

text \<open>
  On a system that cannot create the temporary directory, the valid-code case fails and the
  infinite-loop case passes.
\<close>

theorem RunTest_execution_error_witness:
  "snd (security_Execute full_disk (executor NewTestFramework)
          (TestCase_Language (tests NewTestFramework ! 4))
          (TestCase_Code (tests NewTestFramework ! 4)))
     = Inl (Wrapf ''failed to create temp directory: ''
              (Errorf ''mkdir /tmp/forgeai: no space left on device''))
   \<and> Passed (RunTest full_disk 7 NewTestFramework (tests NewTestFramework ! 4)) = False
   \<and> Passed (RunTest full_disk 7 NewTestFramework (tests NewTestFramework ! 0)) = True"
proof -
  have a: "ShouldBeContained (ExpectedResult (tests NewTestFramework ! 4)) = False"
    by (simp add: NewTestFramework_def)
  have b: "ShouldBeContained (ExpectedResult (tests NewTestFramework ! 0)) = True"
    by (simp add: NewTestFramework_def)
  show ?thesis
    using RunTest_execution_error [where w = full_disk and tf = NewTestFramework
          and test = "tests NewTestFramework ! 4" and elapsed = 7, OF full_disk_fails]
      RunTest_execution_error [where w = full_disk and tf = NewTestFramework
          and test = "tests NewTestFramework ! 0" and elapsed = 7, OF full_disk_fails]
      full_disk_fails a b
    by simp
qed

subsection \<open>The external-executor wrapper\<close>

text \<open>
  C9: when the plugin process ends with an error (a non-zero exit status, or it could not
  be started), \<^verbatim>\<open>Execute\<close> and \<^verbatim>\<open>ExecuteFile\<close> return an error that wraps it, whatever the
  plugin printed and whatever the decoder would make of it; they return a result exactly
  when the process ended without error and its combined output decodes to that result.
\<close>

theorem External_rejects_failed_plugin:
  "(proc_err (Run w None None [binaryPath e, ''execute'', language, code]) \<noteq> CmdOk
      \<longrightarrow> (\<exists>err. External_Execute w f e language code
                   = ([[binaryPath e, ''execute'', language, code]],
                      Inl (Wrapf ''failed to execute code: '' err))))
   \<and> (snd (External_Execute w f e language code) = Inr result
        \<longleftrightarrow> proc_err (Run w None None [binaryPath e, ''execute'', language, code]) = CmdOk
            \<and> UnmarshalResult f (proc_output (Run w None None [binaryPath e, ''execute'', language, code]))
                = Inr result)
   \<and> (proc_err (Run w None None [binaryPath e, ''execute-file'', filePath]) \<noteq> CmdOk
      \<longrightarrow> (\<exists>err. External_ExecuteFile w f e filePath
                   = ([[binaryPath e, ''execute-file'', filePath]],
                      Inl (Wrapf ''failed to execute file: '' err))))
   \<and> (snd (External_ExecuteFile w f e filePath) = Inr result
        \<longleftrightarrow> proc_err (Run w None None [binaryPath e, ''execute-file'', filePath]) = CmdOk
            \<and> UnmarshalResult f (proc_output (Run w None None [binaryPath e, ''execute-file'', filePath]))
                = Inr result)"
  by (auto simp: External_Execute_def External_ExecuteFile_def Let_def run_error_def
      split: cmd_error.splits sum.splits option.splits)

text \<open>
  A plugin that prints a well-formed object and exits with status 1: the decoder accepts
  its output, and both operations return an error and no result.
\<close>

theorem External_rejects_failed_plugin_witness:
  "proc_err (Run exit1_plugin None None [binaryPath hello_plugin, ''execute'', ''hello'', ''hi'']) \<noteq> CmdOk
   \<and> UnmarshalResult no_plugins
        (proc_output (Run exit1_plugin None None [binaryPath hello_plugin, ''execute'', ''hello'', ''hi'']))
       = Inr zero_result
   \<and> (\<exists>err. External_Execute exit1_plugin no_plugins hello_plugin ''hello'' ''hi''
              = ([[binaryPath hello_plugin, ''execute'', ''hello'', ''hi'']],
                 Inl (Wrapf ''failed to execute code: '' err)))
   \<and> snd (External_Execute exit1_plugin no_plugins hello_plugin ''hello'' ''hi'') \<noteq> Inr zero_result
   \<and> (\<exists>err. External_ExecuteFile exit1_plugin no_plugins hello_plugin ''main.hello''
              = ([[binaryPath hello_plugin, ''execute-file'', ''main.hello'']],
                 Inl (Wrapf ''failed to execute file: '' err)))"
proof -
  have a: "proc_err (Run exit1_plugin None None argv) \<noteq> CmdOk" for argv
    by (simp add: exit1_plugin_def)
  have b: "UnmarshalResult no_plugins (proc_output (Run exit1_plugin None None argv)) = Inr zero_result"
    for argv
    by (simp add: exit1_plugin_def no_plugins_def)
  show ?thesis
    using External_rejects_failed_plugin [where w = exit1_plugin and f = no_plugins
        and e = hello_plugin and language = "''hello''" and code = "''hi''"
        and filePath = "''main.hello''" and result = zero_result] a b
    by simp
qed

subsection \<open>The job manager\<close>

lemma digits_small: "n < 10 \<Longrightarrow> digits n = [digit n]"
  by (simp add: digits.simps)

lemma one_job_value:
  "one_job = \<lparr>heap = [\<lparr>Job_ID = ''job-1'', Job_Status = ''pending'',
                  Job_Language = ''python'', Job_Code = ''print(1)'', Job_FilePath = [],
                  Job_Timeout = 30, Job_MemoryLimit = 128, Job_NetworkAccess = False,
                  Job_Result = None, Job_Error = [],
                  Job_CreatedAt = Some 2, Job_StartedAt = None, Job_CompletedAt = None\<rparr>],
               jobs = [''job-1'' \<mapsto> 0]\<rparr>"
  by (simp add: one_job_def handleExecuteCode_def print_request_def CreateJob_def NewJobManager_def
      modify_def generateJobID_def Sprintf_d_def digits_small digit_def Let_def)

lemma ExecuteJob_finish_overwrites:
  "p < length (heap jm) \<Longrightarrow>
     Job_Status (heap (ExecuteJob_finish now p outcome jm) ! p)
       = (case outcome of Inl err \<Rightarrow> ''failed'' | Inr result \<Rightarrow> ''completed'')"
  by (simp add: ExecuteJob_finish_def modify_def split: sum.splits)

text \<open>
  Left alone, the worker takes a pending job to running and then to completed or failed. But
  its second locked region does not look at the status it overwrites: a job cancelled while
  running is completed or failed afterwards.
\<close>

lemma worker_alone:
  assumes "p < length (heap jm)" and "Job_Status (heap jm ! p) = ''pending''"
  shows "history jid p [Start a, Finish b outcome] jm
           = [''pending'', ''running'',
              (case outcome of Inl err \<Rightarrow> ''failed'' | Inr result \<Rightarrow> ''completed'')]"
  using assms
  by (simp add: ExecuteJob_start_def ExecuteJob_finish_def modify_def split: sum.splits)

lemma cancel_while_running:
  assumes "p < length (heap jm)" and "jobs jm jid = Some p"
    and "Job_Status (heap jm ! p) = ''running''"
  shows "history jid p [Cancel a, Finish b outcome] jm
           = [''running'', ''cancelled'',
              (case outcome of Inl err \<Rightarrow> ''failed'' | Inr result \<Rightarrow> ''completed'')]"
  using assms
  by (simp add: CancelJob_def ExecuteJob_finish_def modify_def split: sum.splits)

text \<open>
  C1 does not hold of the code. A job created by \<^verbatim>\<open>POST /v1/execute\<close> whose worker has
  started, and which is then cancelled, is set to \<^verbatim>\<open>completed\<close> when the worker finishes:
  its statuses are pending, running, cancelled, completed. A job cancelled before its worker
  starts goes through pending, cancelled, running, failed when the execution fails.
\<close>

theorem cancelled_job_is_overwritten:
  "history ''job-1'' 0 [Start 3, Cancel 4, Finish 5 (Inr hello_result)] one_job
     = [''pending'', ''running'', ''cancelled'', ''completed'']
   \<and> history ''job-1'' 0 [Cancel 3, Start 4, Finish 5 (Inl (Errorf ''boom''))] one_job
     = [''pending'', ''cancelled'', ''running'', ''failed'']"
  by (simp add: one_job_value ExecuteJob_start_def ExecuteJob_finish_def CancelJob_def modify_def)

text \<open>
  C8: the job that \<^verbatim>\<open>handleExecuteCode\<close> or \<^verbatim>\<open>handleExecuteFile\<close> creates gets the timeout 30
  when the body omits the field or gives 0, and the given value otherwise, negative values
  included; the same holds of the memory limit with the default 128.
\<close>

theorem execute_defaults:
  "(\<exists>resp p jm'.
      handleExecuteCode nano now
        (Inr (req\<lparr>req_Timeout := json_int t, req_MemoryLimit := json_int m\<rparr>)) jm
        = (resp, Some p, jm')
      \<and> Job_Timeout (heap jm' ! p) = (case t of None \<Rightarrow> 30 | Some n \<Rightarrow> if n = 0 then 30 else n)
      \<and> Job_MemoryLimit (heap jm' ! p)
          = (case m of None \<Rightarrow> 128 | Some n \<Rightarrow> if n = 0 then 128 else n))
   \<and> (\<exists>resp p jm'.
      handleExecuteFile nano now
        (Inr (freq\<lparr>freq_Timeout := json_int t, freq_MemoryLimit := json_int m\<rparr>)) jm
        = (resp, Some p, jm')
      \<and> Job_Timeout (heap jm' ! p) = (case t of None \<Rightarrow> 30 | Some n \<Rightarrow> if n = 0 then 30 else n)
      \<and> Job_MemoryLimit (heap jm' ! p)
          = (case m of None \<Rightarrow> 128 | Some n \<Rightarrow> if n = 0 then 128 else n))"
  by (simp add: handleExecuteCode_def handleExecuteFile_def CreateJob_def CreateFileJob_def
      modify_def json_int_def Let_def split: option.splits)

text \<open>A body with \<^verbatim>\<open>"timeout": 0\<close> and \<^verbatim>\<open>"memory_limit": -5\<close> yields a job with 30 and -5.\<close>

theorem execute_defaults_witness:
  "\<exists>resp p jm'.
      handleExecuteCode 1 2
        (Inr (print_request\<lparr>req_Timeout := json_int (Some 0), req_MemoryLimit := json_int (Some (- 5))\<rparr>))
        NewJobManager
        = (resp, Some p, jm')
      \<and> Job_Timeout (heap jm' ! p) = 30
      \<and> Job_MemoryLimit (heap jm' ! p) = - 5"
  using execute_defaults [where nano = 1 and now = 2 and req = print_request and t = "Some 0"
      and m = "Some (- 5)" and jm = NewJobManager]
  by simp

lemma set_map_filter: "set (List.map_filter f ks) = {y. \<exists>k \<in> set ks. f k = Some y}"
  by (force simp: List.map_filter_def)

lemma ran_via_keys: "set ks = dom f \<Longrightarrow> {y. \<exists>k \<in> set ks. f k = Some y} = ran f"
  by (auto simp: ran_def dom_def)

lemma distinct_map_filter:
  "distinct ks \<Longrightarrow> inj_on f (set ks) \<Longrightarrow> distinct (List.map_filter f ks)"
proof (induction ks)
  case Nil
  then show ?case by (simp add: List.map_filter_def)
next
  case (Cons k ks)
  then have d: "distinct (List.map_filter f ks)" by simp
  show ?case
  proof (cases "f k")
    case None
    with d show ?thesis by (simp add: List.map_filter_def)
  next
    case (Some y)
    have "y \<notin> set (List.map_filter f ks)"
    proof
      assume "y \<in> set (List.map_filter f ks)"
      then obtain k' where k': "k' \<in> set ks" "f k' = Some y"
        by (auto simp: set_map_filter)
      with Some Cons.prems have "k' = k"
        by (auto simp: inj_on_def)
      with k' Cons.prems show False by simp
    qed
    with d Some show ?thesis by (simp add: List.map_filter_def)
  qed
qed

lemma length_map_filter_dom:
  "set ks \<subseteq> dom f \<Longrightarrow> length (List.map_filter f ks) = length ks"
  by (induction ks) (auto simp: List.map_filter_def)

text \<open>
  C6: whatever order Go visits the keys of the job table in (each key once), \<^verbatim>\<open>ListJobs\<close>
  returns exactly the stored jobs whose status equals the status filter, or any status when
  that filter is empty, and whose language equals the language filter, or any language when
  that filter is empty. With both filters empty it returns all stored jobs, one entry for
  each key of the table; and when no two keys share a job, no job is returned twice.
\<close>

theorem ListJobs_exact:
  assumes "set ks = dom (jobs jm)" and "distinct ks"
  shows "set (ListJobs ks status language jm)
           = {p \<in> ran (jobs jm).
                (status = [] \<or> Job_Status (heap jm ! p) = status)
                \<and> (language = [] \<or> Job_Language (heap jm ! p) = language)}
         \<and> set (ListJobs ks [] [] jm) = ran (jobs jm)
         \<and> length (ListJobs ks [] [] jm) = card (dom (jobs jm))
         \<and> (inj_on (jobs jm) (dom (jobs jm)) \<longrightarrow> distinct (ListJobs ks status language jm))"
proof -
  have r: "set (List.map_filter (jobs jm) ks) = ran (jobs jm)"
    using ran_via_keys [OF assms(1)] by (simp add: set_map_filter)
  have l: "length (List.map_filter (jobs jm) ks) = card (dom (jobs jm))"
    using assms length_map_filter_dom [of ks "jobs jm"] distinct_card [of ks] by simp
  have d: "inj_on (jobs jm) (dom (jobs jm)) \<Longrightarrow> distinct (List.map_filter (jobs jm) ks)"
    using assms distinct_map_filter [of ks "jobs jm"] by simp
  show ?thesis
    using r l d by (auto simp: ListJobs_def)
qed

text \<open>
  Three stored jobs, visited in the order third, first, second: the filters
  \<^verbatim>\<open>status=completed&language=python\<close> return the first job only, and the empty query returns
  all three.
\<close>

theorem ListJobs_exact_witness:
  "set visiting_order = dom (jobs three_jobs)
   \<and> distinct visiting_order
   \<and> ListJobs visiting_order ''completed'' ''python'' three_jobs = [0]
   \<and> ListJobs visiting_order [] [] three_jobs = [2, 0, 1]
   \<and> ran (jobs three_jobs) = {0, 1, 2}
   \<and> card (dom (jobs three_jobs)) = 3"
proof -
  have a: "set visiting_order = dom (jobs three_jobs)"
    by (auto simp: visiting_order_def three_jobs_def)
  have b: "distinct visiting_order"
    by (simp add: visiting_order_def)
  have c: "ListJobs visiting_order ''completed'' ''python'' three_jobs = [0]"
    by (simp add: ListJobs_def List.map_filter_def visiting_order_def three_jobs_def)
  have d: "ListJobs visiting_order [] [] three_jobs = [2, 0, 1]"
    by (simp add: ListJobs_def List.map_filter_def visiting_order_def three_jobs_def)
  note t = ListJobs_exact [OF a b, of "''completed''" "''python''"]
  have e: "set (ListJobs visiting_order [] [] three_jobs) = ran (jobs three_jobs)"
    by (rule t [THEN conjunct2, THEN conjunct1])
  have f: "length (ListJobs visiting_order [] [] three_jobs) = card (dom (jobs three_jobs))"
    by (rule t [THEN conjunct2, THEN conjunct2, THEN conjunct1])
  have g: "ran (jobs three_jobs) = {0, 1, 2}"
    unfolding e [symmetric] d by auto
  have h: "card (dom (jobs three_jobs)) = 3"
    unfolding f [symmetric] d by simp
  show ?thesis
    by (intro conjI a b c d g h)
qed

subsection \<open>Timeouts\<close>

lemma capture_timeout: "proc_ctx p = DeadlineExceeded \<Longrightarrow> capture p = timed_out p"
  by (simp add: capture_def timed_out_def)

lemma Local_ExecuteFile_spawn:
  "fst (Local_ExecuteFile w e filePath) = [argv] \<Longrightarrow>
     snd (Local_ExecuteFile w e filePath)
       = Inr (capture (Run w (withTimeout (Local_Timeout e)) None argv))"
  by (auto simp: Local_ExecuteFile_def Let_def split: sum.splits)

lemma Local_Execute_spawn:
  "fst (Local_Execute w e language code) = [argv] \<Longrightarrow>
     snd (Local_Execute w e language code)
       = Inr (capture (Run w (withTimeout (Local_Timeout e)) None argv))"
  by (auto simp: Local_Execute_def Local_ExecuteFile_spawn split: sum.splits)

lemma Secure_ExecuteFile_spawn:
  "fst (Secure_ExecuteFile w se filePath) = [argv] \<Longrightarrow>
     snd (Secure_ExecuteFile w se filePath)
       = Inr (capture (Run w (withTimeout (Secure_Timeout se)) (Some (Dir filePath)) argv))"
  by (auto simp: Secure_ExecuteFile_def Let_def split: sum.splits)

lemma executeLocally_spawn:
  "fst (Containerized_executeLocally w ce language filePath) = [argv] \<Longrightarrow>
     snd (Containerized_executeLocally w ce language filePath)
       = Inr (capture (Run w (withTimeout (Containerized_Timeout ce)) (Some (Dir filePath)) argv))"
  by (auto simp: Containerized_executeLocally_def Let_def split: sum.splits)

lemma executeWithDocker_spawn:
  "fst (Containerized_executeWithDocker w ce language filePath) = [argv] \<Longrightarrow>
     snd (Containerized_executeWithDocker w ce language filePath)
       = Inr (capture (Run w (withTimeout (Containerized_Timeout ce)) None argv))"
  unfolding Containerized_executeWithDocker_def Let_def
  by (simp split: option.splits if_splits)

text \<open>
  C3: when an execution by the local executor (\<^verbatim>\<open>ExecuteFile\<close>, or \<^verbatim>\<open>Execute\<close> through it),
  by the secure executor, or by either execution path of the containerized executor has
  started its child process and the context reports an exceeded deadline after the child
  has returned, the call returns a result and no error: the result carries the output
  captured so far, the diagnostic \<^verbatim>\<open>Execution timed out\<close> and the exit code -1.
\<close>

theorem timeout_is_a_result:
  "(fst (Local_ExecuteFile w e filePath) = [argv]
      \<and> proc_ctx (Run w (withTimeout (Local_Timeout e)) None argv) = DeadlineExceeded
      \<longrightarrow> snd (Local_ExecuteFile w e filePath)
            = Inr (timed_out (Run w (withTimeout (Local_Timeout e)) None argv)))
   \<and> (fst (Local_Execute w e language code) = [argv]
      \<and> proc_ctx (Run w (withTimeout (Local_Timeout e)) None argv) = DeadlineExceeded
      \<longrightarrow> snd (Local_Execute w e language code)
            = Inr (timed_out (Run w (withTimeout (Local_Timeout e)) None argv)))
   \<and> (fst (Secure_ExecuteFile w se filePath) = [argv]
      \<and> proc_ctx (Run w (withTimeout (Secure_Timeout se)) (Some (Dir filePath)) argv) = DeadlineExceeded
      \<longrightarrow> snd (Secure_ExecuteFile w se filePath)
            = Inr (timed_out (Run w (withTimeout (Secure_Timeout se)) (Some (Dir filePath)) argv)))
   \<and> (fst (Containerized_executeLocally w ce language filePath) = [argv]
      \<and> proc_ctx (Run w (withTimeout (Containerized_Timeout ce)) (Some (Dir filePath)) argv)
          = DeadlineExceeded
      \<longrightarrow> snd (Containerized_executeLocally w ce language filePath)
            = Inr (timed_out (Run w (withTimeout (Containerized_Timeout ce)) (Some (Dir filePath)) argv)))
   \<and> (fst (Containerized_executeWithDocker w ce language filePath) = [argv]
      \<and> proc_ctx (Run w (withTimeout (Containerized_Timeout ce)) None argv) = DeadlineExceeded
      \<longrightarrow> snd (Containerized_executeWithDocker w ce language filePath)
            = Inr (timed_out (Run w (withTimeout (Containerized_Timeout ce)) None argv)))"
  by (simp add: Local_ExecuteFile_spawn Local_Execute_spawn Secure_ExecuteFile_spawn
      executeLocally_spawn executeWithDocker_spawn capture_timeout)

subsection \<open>The performance harness\<close>

lemma wrap64_id: "0 \<le> x \<Longrightarrow> x < 2 ^ 63 \<Longrightarrow> wrap64 x = x"
  by (simp add: wrap64_def)

lemma quot_nonneg: "0 \<le> a \<Longrightarrow> 0 < b \<Longrightarrow> quot a b = a div b"
  by (simp add: quot_def)

lemma record_run_fields:
  "TotalTime (record_run ob m) = wrap64 (TotalTime m + fst ob)"
  "MinTime (record_run ob m) = min (fst ob) (MinTime m)"
  "MaxTime (record_run ob m) = max (fst ob) (MaxTime m)"
  "SuccessfulExecutions (record_run ob m)
     = SuccessfulExecutions m + (case snd ob of Inl err \<Rightarrow> 0 | Inr r \<Rightarrow> 1)"
  "FailedExecutions (record_run ob m)
     = FailedExecutions m + (case snd ob of Inl err \<Rightarrow> 1 | Inr r \<Rightarrow> 0)"
  by (auto simp: record_run_def Let_def split: sum.splits)

lemma fold_record_run:
  assumes "\<forall>ob \<in> set obs. 0 \<le> fst ob"
    and "0 \<le> TotalTime m"
    and "TotalTime m + sum_list (map fst obs) < 2 ^ 63"
  shows "TotalTime (fold record_run obs m) = TotalTime m + sum_list (map fst obs)
         \<and> MinTime (fold record_run obs m) \<le> MinTime m
         \<and> MaxTime m \<le> MaxTime (fold record_run obs m)
         \<and> (\<forall>ob \<in> set obs. MinTime (fold record_run obs m) \<le> fst ob
                              \<and> fst ob \<le> MaxTime (fold record_run obs m))
         \<and> SuccessfulExecutions (fold record_run obs m) + FailedExecutions (fold record_run obs m)
             = SuccessfulExecutions m + FailedExecutions m + int (length obs)
         \<and> SuccessfulExecutions (fold record_run obs m)
             = SuccessfulExecutions m + int (length (filter (\<lambda>ob. \<not> isl (snd ob)) obs))"
  using assms
proof (induction obs arbitrary: m)
  case Nil
  then show ?case by simp
next
  case (Cons ob obs)
  let ?m = "record_run ob m"
  have nn: "0 \<le> fst ob" and rest: "\<forall>ob \<in> set obs. 0 \<le> fst ob"
    using Cons.prems(1) by simp_all
  have s0: "0 \<le> sum_list (map fst obs)"
    using rest by (auto intro!: sum_list_nonneg)
  have t: "TotalTime ?m = TotalTime m + fst ob"
    using nn s0 Cons.prems(2,3) by (simp add: record_run_fields wrap64_id)
  have ih: "TotalTime (fold record_run obs ?m) = TotalTime ?m + sum_list (map fst obs)
         \<and> MinTime (fold record_run obs ?m) \<le> MinTime ?m
         \<and> MaxTime ?m \<le> MaxTime (fold record_run obs ?m)
         \<and> (\<forall>ob \<in> set obs. MinTime (fold record_run obs ?m) \<le> fst ob
                              \<and> fst ob \<le> MaxTime (fold record_run obs ?m))
         \<and> SuccessfulExecutions (fold record_run obs ?m) + FailedExecutions (fold record_run obs ?m)
             = SuccessfulExecutions ?m + FailedExecutions ?m + int (length obs)
         \<and> SuccessfulExecutions (fold record_run obs ?m)
             = SuccessfulExecutions ?m + int (length (filter (\<lambda>ob. \<not> isl (snd ob)) obs))"
    using Cons.IH [of ?m] rest t nn Cons.prems(2,3) by simp
  have mn: "MinTime ?m \<le> MinTime m" "MinTime ?m \<le> fst ob"
    and mx: "MaxTime m \<le> MaxTime ?m" "fst ob \<le> MaxTime ?m"
    by (simp_all add: record_run_fields)
  have cnt: "SuccessfulExecutions ?m + FailedExecutions ?m
               = SuccessfulExecutions m + FailedExecutions m + 1"
    by (simp add: record_run_fields split: sum.splits)
  have suc: "SuccessfulExecutions ?m = SuccessfulExecutions m + (if \<not> isl (snd ob) then 1 else 0)"
    by (cases "snd ob") (simp_all add: record_run_fields)
  show ?case
    using ih t mn mx cnt suc by auto
qed

lemma sum_list_bounds:
  fixes xs :: "int list"
  assumes "\<forall>x \<in> set xs. lo \<le> x \<and> x \<le> hi"
  shows "int (length xs) * lo \<le> sum_list xs \<and> sum_list xs \<le> int (length xs) * hi"
  using assms by (induction xs) (auto simp: algebra_simps)

lemma sum_list_upper:
  fixes xs :: "int list"
  assumes "\<forall>x \<in> set xs. x < b"
  shows "sum_list xs \<le> int (length xs) * b"
  using assms by (induction xs) (auto simp: algebra_simps)


lemma runPerformanceTest_fields:
  "runPerformanceTest name test warm obs =
     (let m = fold record_run (map obs [0..<numTests])
                \<lparr>Metrics_ExecutorName = name, Metrics_TestCaseName = Test_Name test,
                 TotalExecutions = 0, SuccessfulExecutions = 0, FailedExecutions = 0,
                 TotalTime = 0, AverageTime = 0, MinTime = Hour, MaxTime = 0, SuccessRate = 0\<rparr>
      in m\<lparr>TotalExecutions := int numTests,
            AverageTime := quot (TotalTime m) (int numTests),
            SuccessRate := real_of_int (SuccessfulExecutions m) / real numTests * 100\<rparr>)"
proof -
  have w: "fold (\<lambda>i metrics. case warm i of
                   Inl err \<Rightarrow> metrics\<lparr>FailedExecutions := FailedExecutions metrics + 1\<rparr>
                 | Inr result \<Rightarrow> metrics\<lparr>SuccessfulExecutions := SuccessfulExecutions metrics + 1\<rparr>)
             is m
           = m\<lparr>SuccessfulExecutions := SuccessfulExecutions m
                   + int (length (filter (\<lambda>i. \<not> isl (warm i)) is)),
                FailedExecutions := FailedExecutions m
                   + int (length (filter (\<lambda>i. isl (warm i)) is))\<rparr>" for "is" and m :: PerformanceMetrics
    by (induction "is" arbitrary: m) (auto split: sum.splits)
  show ?thesis
    unfolding runPerformanceTest_def Let_def w
    by (simp add: fold_map comp_def)
qed

text \<open>
  C7: for ten timed runs whose durations are not negative (Go measures them on the monotonic
  clock) and below \<open>2 ^ 59\<close> nanoseconds (about eighteen years, so that their sum fits in
  an \<^verbatim>\<open>int64\<close>), in whatever order the goroutines record them: the total time is the sum of
  the ten durations, the average is the total divided by 10 in integer division, the minimum
  is at most the average and the average at most the maximum, the number of executions is
  10, successes and failures add up to 10, and the success rate is the number of successes
  divided by 10, times 100.
\<close>

theorem performance_metrics:
  assumes "\<forall>i < numTests. 0 \<le> fst (obs i) \<and> fst (obs i) < 2 ^ 59"
  shows "TotalTime (runPerformanceTest name test warm obs) = (\<Sum>i < numTests. fst (obs i))
         \<and> AverageTime (runPerformanceTest name test warm obs)
             = quot (TotalTime (runPerformanceTest name test warm obs)) 10
         \<and> AverageTime (runPerformanceTest name test warm obs)
             = TotalTime (runPerformanceTest name test warm obs) div 10
         \<and> MinTime (runPerformanceTest name test warm obs)
             \<le> AverageTime (runPerformanceTest name test warm obs)
         \<and> AverageTime (runPerformanceTest name test warm obs)
             \<le> MaxTime (runPerformanceTest name test warm obs)
         \<and> TotalExecutions (runPerformanceTest name test warm obs) = 10
         \<and> SuccessfulExecutions (runPerformanceTest name test warm obs)
             = int (card {i. i < numTests \<and> \<not> isl (snd (obs i))})
         \<and> SuccessfulExecutions (runPerformanceTest name test warm obs)
             + FailedExecutions (runPerformanceTest name test warm obs) = 10
         \<and> SuccessRate (runPerformanceTest name test warm obs)
             = real_of_int (SuccessfulExecutions (runPerformanceTest name test warm obs)) / 10 * 100"
proof -
  define init where "init =
     \<lparr>Metrics_ExecutorName = name, Metrics_TestCaseName = Test_Name test,
      TotalExecutions = 0, SuccessfulExecutions = 0, FailedExecutions = 0,
      TotalTime = 0, AverageTime = 0, MinTime = Hour, MaxTime = 0, SuccessRate = 0\<rparr>"
  define runs where "runs = map obs [0..<numTests]"
  define ds where "ds = map fst runs"
  define m where "m = fold record_run runs init"
  have len: "length runs = 10" "length ds = 10"
    by (simp_all add: runs_def ds_def numTests_def)
  have nn: "\<forall>ob \<in> set runs. 0 \<le> fst ob"
    using assms by (auto simp: runs_def)
  have up: "\<forall>x \<in> set ds. x < 2 ^ 59"
    using assms by (auto simp: runs_def ds_def)
  have "sum_list ds \<le> int (length ds) * 2 ^ 59"
    by (rule sum_list_upper [OF up])
  then have small: "sum_list ds < 2 ^ 63"
    unfolding len by simp
  have i0: "TotalTime init = 0" "SuccessfulExecutions init = 0" "FailedExecutions init = 0"
    by (simp_all add: init_def)
  have inv: "TotalTime m = TotalTime init + sum_list (map fst runs)
         \<and> MinTime m \<le> MinTime init
         \<and> MaxTime init \<le> MaxTime m
         \<and> (\<forall>ob \<in> set runs. MinTime m \<le> fst ob \<and> fst ob \<le> MaxTime m)
         \<and> SuccessfulExecutions m + FailedExecutions m
             = SuccessfulExecutions init + FailedExecutions init + int (length runs)
         \<and> SuccessfulExecutions m
             = SuccessfulExecutions init + int (length (filter (\<lambda>ob. \<not> isl (snd ob)) runs))"
    unfolding m_def
    by (rule fold_record_run [OF nn]) (use small in \<open>simp_all add: i0 ds_def\<close>)
  have total: "TotalTime m = sum_list ds"
    using inv by (simp add: i0 ds_def)
  have bounds: "\<forall>x \<in> set ds. MinTime m \<le> x \<and> x \<le> MaxTime m"
    using inv by (auto simp: ds_def)
  have sb: "int (length ds) * MinTime m \<le> sum_list ds
            \<and> sum_list ds \<le> int (length ds) * MaxTime m"
    by (rule sum_list_bounds [OF bounds])
  have lo: "10 * MinTime m \<le> TotalTime m" and hi: "TotalTime m \<le> 10 * MaxTime m"
    using sb unfolding len total by simp_all
  have "0 \<le> sum_list ds"
    using nn by (auto intro!: sum_list_nonneg simp: ds_def)
  then have tn: "0 \<le> TotalTime m"
    by (simp add: total)
  have avg: "quot (TotalTime m) 10 = TotalTime m div 10"
    using tn by (simp add: quot_nonneg)
  have a1: "MinTime m \<le> TotalTime m div 10"
    using lo by linarith
  have a2: "TotalTime m div 10 \<le> MaxTime m"
    using hi by linarith
  have sumeq: "sum_list ds = (\<Sum>i < numTests. fst (obs i))"
    by (simp add: ds_def runs_def comp_def interv_sum_list_conv_sum_set_nat atLeast0LessThan)
  have cnt: "length (filter (\<lambda>ob. \<not> isl (snd ob)) runs)
               = card {i. i < numTests \<and> \<not> isl (snd (obs i))}"
  proof -
    have "length (filter (\<lambda>ob. \<not> isl (snd ob)) runs)
            = length (filter (\<lambda>i. \<not> isl (snd (obs i))) [0..<numTests])"
      by (simp add: runs_def filter_map comp_def)
    also have "\<dots> = card (set (filter (\<lambda>i. \<not> isl (snd (obs i))) [0..<numTests]))"
      by (rule distinct_card [symmetric]) simp
    also have "set (filter (\<lambda>i. \<not> isl (snd (obs i))) [0..<numTests])
                 = {i. i < numTests \<and> \<not> isl (snd (obs i))}"
      by auto
    finally show ?thesis .
  qed
  have succ: "SuccessfulExecutions m = int (card {i. i < numTests \<and> \<not> isl (snd (obs i))})"
    using inv cnt by (simp add: i0)
  have both: "SuccessfulExecutions m + FailedExecutions m = 10"
    using inv len by (simp add: i0)
  have n10: "int numTests = 10" "real numTests = 10"
    by (simp_all add: numTests_def)
  have R: "runPerformanceTest name test warm obs
             = m\<lparr>TotalExecutions := 10, AverageTime := quot (TotalTime m) 10,
                  SuccessRate := real_of_int (SuccessfulExecutions m) / 10 * 100\<rparr>"
    by (simp add: runPerformanceTest_fields Let_def n10 m_def runs_def init_def)
  have f1: "TotalTime (runPerformanceTest name test warm obs) = (\<Sum>i < numTests. fst (obs i))"
    unfolding R using total sumeq by simp
  have f2: "AverageTime (runPerformanceTest name test warm obs)
              = quot (TotalTime (runPerformanceTest name test warm obs)) 10"
    unfolding R by simp
  have f3: "AverageTime (runPerformanceTest name test warm obs)
              = TotalTime (runPerformanceTest name test warm obs) div 10"
    unfolding R using avg by simp
  have f4: "MinTime (runPerformanceTest name test warm obs)
              \<le> AverageTime (runPerformanceTest name test warm obs)"
    unfolding R using a1 avg by simp
  have f5: "AverageTime (runPerformanceTest name test warm obs)
              \<le> MaxTime (runPerformanceTest name test warm obs)"
    unfolding R using a2 avg by simp
  have f6: "TotalExecutions (runPerformanceTest name test warm obs) = 10"
    unfolding R by simp
  have f7: "SuccessfulExecutions (runPerformanceTest name test warm obs)
              = int (card {i. i < numTests \<and> \<not> isl (snd (obs i))})"
    unfolding R using succ by simp
  have f8: "SuccessfulExecutions (runPerformanceTest name test warm obs)
              + FailedExecutions (runPerformanceTest name test warm obs) = 10"
    unfolding R using both by simp
  have f9: "SuccessRate (runPerformanceTest name test warm obs)
              = real_of_int (SuccessfulExecutions (runPerformanceTest name test warm obs)) / 10 * 100"
    unfolding R by simp
  show ?thesis
    by (intro conjI f1 f2 f3 f4 f5 f6 f7 f8 f9)
qed

subsection \<open>Timeouts and measurements at concrete inputs\<close>

lemma slow_child_times_out:
  "0 < t \<Longrightarrow> proc_ctx (Run slow_child (withTimeout t) dir argv) = DeadlineExceeded"
  "0 < t \<Longrightarrow> timed_out (Run slow_child (withTimeout t) dir argv)
     = \<lparr>Stdout = ''partial output'', Stderr = ''Execution timed out'', ExitCode = - 1,
        Duration = t\<rparr>"
  by (simp_all add: slow_child_def withTimeout_def timed_out_def)

lemma python_file: "getLanguageFromFile ''/tmp/forgeai-1/main.py'' = ''python''"
  by (simp add: getLanguageFromFile_def Ext_def)

text \<open>
  On a system where every child outlives its deadline, the five execution paths return the
  timeout result for a Python file, with the executor's timeout as the measured duration.
\<close>

theorem timeout_is_a_result_witness:
  "(\<exists>argv. fst (Local_ExecuteFile slow_child NewLocalExecutor ''/tmp/forgeai-1/main.py'') = [argv]
      \<and> proc_ctx (Run slow_child (withTimeout (Local_Timeout NewLocalExecutor)) None argv)
          = DeadlineExceeded)
   \<and> snd (Local_ExecuteFile slow_child NewLocalExecutor ''/tmp/forgeai-1/main.py'')
       = Inr \<lparr>Stdout = ''partial output'', Stderr = ''Execution timed out'', ExitCode = - 1,
              Duration = 30 * Second\<rparr>
   \<and> snd (Local_Execute slow_child NewLocalExecutor ''python'' ''while True: pass'')
       = Inr \<lparr>Stdout = ''partial output'', Stderr = ''Execution timed out'', ExitCode = - 1,
              Duration = 30 * Second\<rparr>
   \<and> snd (Secure_ExecuteFile slow_child NewSecureExecutor ''/tmp/forgeai-1/main.py'')
       = Inr \<lparr>Stdout = ''partial output'', Stderr = ''Execution timed out'', ExitCode = - 1,
              Duration = 10 * Second\<rparr>
   \<and> snd (Containerized_executeLocally slow_child NewContainerizedExecutor ''python''
            ''/tmp/forgeai-1/main.py'')
       = Inr \<lparr>Stdout = ''partial output'', Stderr = ''Execution timed out'', ExitCode = - 1,
              Duration = 10 * Second\<rparr>
   \<and> snd (Containerized_executeWithDocker slow_child NewContainerizedExecutor ''python''
            ''/tmp/forgeai-1/main.py'')
       = Inr \<lparr>Stdout = ''partial output'', Stderr = ''Execution timed out'', ExitCode = - 1,
              Duration = 10 * Second\<rparr>"
proof -
  have tl: "0 < Local_Timeout NewLocalExecutor" "Local_Timeout NewLocalExecutor = 30 * Second"
    and ts: "0 < Secure_Timeout NewSecureExecutor" "Secure_Timeout NewSecureExecutor = 10 * Second"
    and tc: "0 < Containerized_Timeout NewContainerizedExecutor"
      "Containerized_Timeout NewContainerizedExecutor = 10 * Second"
    by (simp_all add: NewLocalExecutor_def NewSecureExecutor_def NewContainerizedExecutor_def
        Second_def)
  have a1: "fst (Local_ExecuteFile slow_child NewLocalExecutor ''/tmp/forgeai-1/main.py'')
              = [[''python'', ''/tmp/forgeai-1/main.py'']]"
    by (simp add: Local_ExecuteFile_def python_file getCommandForLanguage_def Let_def)
  have a2: "fst (Local_Execute slow_child NewLocalExecutor ''python'' ''while True: pass'')
              = [[''python'', ''/tmp/forgeai-1/main.py'']]"
    by (simp add: Local_Execute_def slow_child_def writeCodeToFile_def Join_def a1 [unfolded slow_child_def])
  have a3: "fst (Secure_ExecuteFile slow_child NewSecureExecutor ''/tmp/forgeai-1/main.py'')
              = [[''python'', ''/tmp/forgeai-1/main.py'']]"
    by (simp add: Secure_ExecuteFile_def python_file getCommandForLanguage_def Let_def)
  have a4: "fst (Containerized_executeLocally slow_child NewContainerizedExecutor ''python''
                   ''/tmp/forgeai-1/main.py'')
              = [[''python'', ''/tmp/forgeai-1/main.py'']]"
    by (simp add: Containerized_executeLocally_def getCommandForLanguage_def)
  obtain argv where a5: "fst (Containerized_executeWithDocker slow_child NewContainerizedExecutor
                   ''python'' ''/tmp/forgeai-1/main.py'') = [argv]"
    by (simp add: Containerized_executeWithDocker_def Let_def)
  note t = timeout_is_a_result [where w = slow_child and e = NewLocalExecutor
      and se = NewSecureExecutor and ce = NewContainerizedExecutor
      and filePath = "''/tmp/forgeai-1/main.py''" and language = "''python''"
      and code = "''while True: pass''"]
  have r1: "snd (Local_ExecuteFile slow_child NewLocalExecutor ''/tmp/forgeai-1/main.py'')
       = Inr \<lparr>Stdout = ''partial output'', Stderr = ''Execution timed out'', ExitCode = - 1,
              Duration = 30 * Second\<rparr>"
    using t [of "[''python'', ''/tmp/forgeai-1/main.py'']", THEN conjunct1] a1
      slow_child_times_out [OF tl(1)] tl(2) by simp
  have r2: "snd (Local_Execute slow_child NewLocalExecutor ''python'' ''while True: pass'')
       = Inr \<lparr>Stdout = ''partial output'', Stderr = ''Execution timed out'', ExitCode = - 1,
              Duration = 30 * Second\<rparr>"
    using t [of "[''python'', ''/tmp/forgeai-1/main.py'']", THEN conjunct2, THEN conjunct1] a2
      slow_child_times_out [OF tl(1)] tl(2) by simp
  have r3: "snd (Secure_ExecuteFile slow_child NewSecureExecutor ''/tmp/forgeai-1/main.py'')
       = Inr \<lparr>Stdout = ''partial output'', Stderr = ''Execution timed out'', ExitCode = - 1,
              Duration = 10 * Second\<rparr>"
    using t [of "[''python'', ''/tmp/forgeai-1/main.py'']", THEN conjunct2, THEN conjunct2,
        THEN conjunct1] a3
      slow_child_times_out [OF ts(1)] ts(2) by simp
  have r4: "snd (Containerized_executeLocally slow_child NewContainerizedExecutor ''python''
            ''/tmp/forgeai-1/main.py'')
       = Inr \<lparr>Stdout = ''partial output'', Stderr = ''Execution timed out'', ExitCode = - 1,
              Duration = 10 * Second\<rparr>"
    using t [of "[''python'', ''/tmp/forgeai-1/main.py'']", THEN conjunct2, THEN conjunct2,
        THEN conjunct2, THEN conjunct1] a4
      slow_child_times_out [OF tc(1)] tc(2) by simp
  have r5: "snd (Containerized_executeWithDocker slow_child NewContainerizedExecutor ''python''
            ''/tmp/forgeai-1/main.py'')
       = Inr \<lparr>Stdout = ''partial output'', Stderr = ''Execution timed out'', ExitCode = - 1,
              Duration = 10 * Second\<rparr>"
    using t [of argv, THEN conjunct2, THEN conjunct2, THEN conjunct2, THEN conjunct2] a5
      slow_child_times_out [OF tc(1)] tc(2) by simp
  have e: "\<exists>argv. fst (Local_ExecuteFile slow_child NewLocalExecutor ''/tmp/forgeai-1/main.py'') = [argv]
      \<and> proc_ctx (Run slow_child (withTimeout (Local_Timeout NewLocalExecutor)) None argv)
          = DeadlineExceeded"
    using a1 slow_child_times_out(1) [OF tl(1)] by blast
  show ?thesis
    by (intro conjI e r1 r2 r3 r4 r5)
qed

lemma steady_ok: "i < numTests \<Longrightarrow> 0 \<le> fst (steady_runs i) \<and> fst (steady_runs i) < 2 ^ 59"
  by (simp add: steady_runs_def Millisecond_def numTests_def)

lemma steady_sum: "(\<Sum>i < numTests. fst (steady_runs i)) = 272 * Millisecond"
  by (simp add: numTests_def steady_runs_def Millisecond_def eval_nat_numeral lessThan_Suc)

text \<open>
  Ten measurements that sum to 272 ms: the average is 27.2 ms, between the minimum and the
  maximum.
\<close>

theorem performance_metrics_witness:
  "list_all (\<lambda>i. 0 \<le> fst (steady_runs i) \<and> fst (steady_runs i) < 2 ^ 59) [0..<numTests]
   \<and> TotalTime (runPerformanceTest ''Secure Executor'' simple_print (\<lambda>i. Inr hello_result) steady_runs)
       = 272000000
   \<and> AverageTime (runPerformanceTest ''Secure Executor'' simple_print (\<lambda>i. Inr hello_result) steady_runs)
       = 27200000
   \<and> MinTime (runPerformanceTest ''Secure Executor'' simple_print (\<lambda>i. Inr hello_result) steady_runs)
       \<le> 27200000
   \<and> 27200000
       \<le> MaxTime (runPerformanceTest ''Secure Executor'' simple_print (\<lambda>i. Inr hello_result) steady_runs)
   \<and> TotalExecutions (runPerformanceTest ''Secure Executor'' simple_print (\<lambda>i. Inr hello_result) steady_runs)
       = 10"
proof -
  have h: "\<forall>i < numTests. 0 \<le> fst (steady_runs i) \<and> fst (steady_runs i) < 2 ^ 59"
    using steady_ok by blast
  have l: "list_all (\<lambda>i. 0 \<le> fst (steady_runs i) \<and> fst (steady_runs i) < 2 ^ 59) [0..<numTests]"
    using steady_ok by (simp add: list_all_iff)
  note t = performance_metrics [OF h, of "''Secure Executor''" simple_print "\<lambda>i. Inr hello_result"]
  let ?r = "runPerformanceTest ''Secure Executor'' simple_print (\<lambda>i. Inr hello_result) steady_runs"
  have tt: "TotalTime ?r = 272000000"
    using t [THEN conjunct1] steady_sum by (simp add: Millisecond_def)
  have av: "AverageTime ?r = 27200000"
    using t [THEN conjunct2, THEN conjunct2, THEN conjunct1] tt by simp
  have mn: "MinTime ?r \<le> 27200000"
    using t [THEN conjunct2, THEN conjunct2, THEN conjunct2, THEN conjunct1] av by simp
  have mx: "27200000 \<le> MaxTime ?r"
    using t [THEN conjunct2, THEN conjunct2, THEN conjunct2, THEN conjunct2, THEN conjunct1] av
    by simp
  have te: "TotalExecutions ?r = 10"
    using t by blast
  show ?thesis
    by (intro conjI l tt av mn mx te)
qed

subsection \<open>Unsupported languages\<close>

lemma Container_Execute_any:
  "Container_Execute c language code = ([], Inr placeholder_result)"
  "Container_ExecuteFile c filePath = ([], Inr placeholder_result)"
  by (simp_all add: Container_Execute_def Container_ExecuteFile_def Container_createTempDir_def
      Container_writeCodeToFile_def Container_getLanguageFromFile_def
      Container_isLanguageSupported_def Container_runContainer_def getImageForLanguage_def
      placeholder_result_def)

text \<open>
  C4, as the claim states it, fails. The generic container shell accepts the language
  \<^verbatim>\<open>cobol\<close> and the file \<^verbatim>\<open>main.cob\<close> and returns its canned result with exit code 0. And on
  a system that cannot create the temporary directory, the local executor's \<^verbatim>\<open>Execute\<close> for
  \<^verbatim>\<open>cobol\<close> fails with that error, not with the unsupported-language error.
\<close>

theorem unsupported_language_counterexample:
  "''cobol'' \<notin> {''python'', ''go'', ''javascript''}
   \<and> Container_Execute NewContainerExecutor ''cobol'' ''DISPLAY 1.'' = ([], Inr placeholder_result)
   \<and> Container_ExecuteFile NewContainerExecutor ''main.cob'' = ([], Inr placeholder_result)
   \<and> ExitCode placeholder_result = 0
   \<and> snd (Local_Execute full_disk NewLocalExecutor ''cobol'' ''DISPLAY 1.'')
       = Inl (Wrapf ''failed to create temp directory: ''
                (Errorf ''mkdir /tmp/forgeai: no space left on device''))
   \<and> Cause (Wrapf ''failed to create temp directory: ''
                (Errorf ''mkdir /tmp/forgeai: no space left on device''))
       \<noteq> UnsupportedLanguage ''cobol''"
  by (simp add: Container_Execute_any placeholder_result_def Local_Execute_def full_disk_def
      UnsupportedLanguage_def)

lemma writeCodeToFile_unsupported:
  "language \<notin> {''python'', ''go'', ''javascript''} \<Longrightarrow>
     writeCodeToFile w tempDir language code = Inl (UnsupportedLanguage language)"
  by (simp add: writeCodeToFile_def)

lemma getCommandForLanguage_unsupported:
  "language \<notin> {''python'', ''go'', ''javascript''} \<Longrightarrow>
     getCommandForLanguage language filePath = Inl (UnsupportedLanguage language)"
  by (simp add: getCommandForLanguage_def)

lemma Docker_isLanguageSupported_iff:
  "Docker_isLanguageSupported language \<longleftrightarrow> language \<in> {''python'', ''go'', ''javascript''}"
  by (simp add: Docker_isLanguageSupported_def Docker_SupportedLanguages_def)

text \<open>
  C4, amended: for every language tag outside python, go and javascript, \<^verbatim>\<open>Execute\<close> and
  \<^verbatim>\<open>ExecuteFile\<close> of the local executor and of the Docker executor start no child process
  and fail. \<^verbatim>\<open>ExecuteFile\<close> fails with the unsupported-language error for the tag inferred
  from the file. \<^verbatim>\<open>Execute\<close> fails with the unsupported-language error wrapped as a failure
  to write the code, unless the temporary directory could not be created, in which case it
  fails with that error. The generic container shell starts no process either, but it
  accepts every language and every file and returns its canned result.
\<close>

theorem unsupported_language_rejected:
  assumes "language \<notin> {''python'', ''go'', ''javascript''}"
  shows "Local_Execute w e language code =
           ([], Inl (case MkdirTemp w ''forgeai-*'' of
                       Inl err \<Rightarrow> Wrapf ''failed to create temp directory: '' err
                     | Inr tempDir \<Rightarrow>
                         Wrapf ''failed to write code to file: '' (UnsupportedLanguage language)))
         \<and> Docker_Execute w d language code =
           ([], Inl (case MkdirTemp w ''forgeai-docker-*'' of
                       Inl err \<Rightarrow> Wrapf ''failed to create temp directory: '' err
                     | Inr tempDir \<Rightarrow>
                         Wrapf ''failed to write code to file: '' (UnsupportedLanguage language)))
         \<and> (getLanguageFromFile filePath = language \<longrightarrow>
               Local_ExecuteFile w e filePath = ([], Inl (UnsupportedLanguage language))
               \<and> Docker_ExecuteFile w d filePath = ([], Inl (UnsupportedLanguage language)))
         \<and> Container_Execute c language code = ([], Inr placeholder_result)
         \<and> Container_ExecuteFile c filePath = ([], Inr placeholder_result)"
proof -
  have a: "Local_Execute w e language code =
           ([], Inl (case MkdirTemp w ''forgeai-*'' of
                       Inl err \<Rightarrow> Wrapf ''failed to create temp directory: '' err
                     | Inr tempDir \<Rightarrow>
                         Wrapf ''failed to write code to file: '' (UnsupportedLanguage language)))"
    by (simp add: Local_Execute_def writeCodeToFile_unsupported [OF assms] split: sum.splits)
  have b: "Docker_Execute w d language code =
           ([], Inl (case MkdirTemp w ''forgeai-docker-*'' of
                       Inl err \<Rightarrow> Wrapf ''failed to create temp directory: '' err
                     | Inr tempDir \<Rightarrow>
                         Wrapf ''failed to write code to file: '' (UnsupportedLanguage language)))"
    by (simp add: Docker_Execute_def writeCodeToFile_unsupported [OF assms] split: sum.splits)
  have c: "getLanguageFromFile filePath = language \<Longrightarrow>
             Local_ExecuteFile w e filePath = ([], Inl (UnsupportedLanguage language))"
    by (simp add: Local_ExecuteFile_def Let_def getCommandForLanguage_unsupported [OF assms])
  have d: "getLanguageFromFile filePath = language \<Longrightarrow>
             Docker_ExecuteFile w d filePath = ([], Inl (UnsupportedLanguage language))"
    using assms by (simp add: Docker_ExecuteFile_def Let_def Docker_isLanguageSupported_iff)
  show ?thesis
    using a b c d by (simp add: Container_Execute_any)
qed

text \<open>The amended claim at the language \<^verbatim>\<open>cobol\<close> and the file \<^verbatim>\<open>main.cob\<close>.\<close>

theorem unsupported_language_rejected_witness:
  "''cobol'' \<notin> {''python'', ''go'', ''javascript''}
   \<and> Local_Execute slow_child NewLocalExecutor ''cobol'' ''DISPLAY 1.''
       = ([], Inl (Wrapf ''failed to write code to file: '' (UnsupportedLanguage ''cobol'')))
   \<and> Docker_Execute slow_child NewDockerExecutor ''cobol'' ''DISPLAY 1.''
       = ([], Inl (Wrapf ''failed to write code to file: '' (UnsupportedLanguage ''cobol'')))
   \<and> getLanguageFromFile ''main.cob'' = ''unknown''
   \<and> Local_ExecuteFile slow_child NewLocalExecutor ''main.cob''
       = ([], Inl (UnsupportedLanguage ''unknown''))
   \<and> Docker_ExecuteFile slow_child NewDockerExecutor ''main.cob''
       = ([], Inl (UnsupportedLanguage ''unknown''))"
proof -
  have a: "''cobol'' \<notin> {''python'', ''go'', ''javascript''}"
    and b: "''unknown'' \<notin> {''python'', ''go'', ''javascript''}"
    by simp_all
  have c: "getLanguageFromFile ''main.cob'' = ''unknown''"
    by (simp add: getLanguageFromFile_def Ext_def)
  have m: "MkdirTemp slow_child pattern = Inr ''/tmp/forgeai-1''" for pattern
    by (simp add: slow_child_def)
  show ?thesis
    using unsupported_language_rejected [OF a, of slow_child NewLocalExecutor "''DISPLAY 1.''"
        NewDockerExecutor]
      unsupported_language_rejected [OF b, of slow_child NewLocalExecutor "''DISPLAY 1.''"
        NewDockerExecutor "''main.cob''"]
      a c m
    by simp
qed

subsection \<open>Executor resolution in the command line\<close>

lemma fold_upd:
  "fold (\<lambda>lang p. p(lang \<mapsto> e)) ls pm language = (if language \<in> set ls then Some e else pm language)"
  by (induction ls arbitrary: pm) auto

lemma plugins_register:
  "plugins (register e m) language
     = (if language \<in> set (languages e) then Some e else plugins m language)"
  by (simp add: register_def fold_upd)

lemma find_SomeD: "find P xs = Some x \<Longrightarrow> x \<in> set xs \<and> P x"
  by (induction xs) (auto split: if_splits)

lemma find_snoc:
  "find P (xs @ [x]) = (case find P xs of Some y \<Rightarrow> Some y | None \<Rightarrow> if P x then Some x else None)"
  by (induction xs) auto

lemma plugins_after_loading:
  "plugins (fold (\<lambda>entry m. if snd entry then snd (LoadPlugin f (Join dir (fst entry)) m) else m)
              entries m) language
     = (case find (\<lambda>e. language \<in> set (languages e))
               (rev (List.map_filter
                       (\<lambda>entry. if snd entry
                                 then (case LoadPlugin_executor f (Join dir (fst entry)) of
                                         Inl err \<Rightarrow> None
                                       | Inr e \<Rightarrow> Some e)
                                 else None)
                       entries)) of
          Some e \<Rightarrow> Some e
        | None \<Rightarrow> plugins m language)"
proof (induction entries arbitrary: m)
  case Nil
  then show ?case by (simp add: List.map_filter_def)
next
  case (Cons entry entries)
  show ?case
  proof (cases "snd entry")
    case False
    then show ?thesis
      using Cons.IH [of m] by (simp add: List.map_filter_def)
  next
    case True
    show ?thesis
    proof (cases "LoadPlugin_executor f (Join dir (fst entry))")
      case (Inl err)
      then show ?thesis
        using True Cons.IH [of m] by (simp add: List.map_filter_def LoadPlugin_def)
    next
      case (Inr e)
      then show ?thesis
        using True Cons.IH [of "register e m"]
        by (simp add: List.map_filter_def LoadPlugin_def find_snoc plugins_register
            split: option.splits)
    qed
  qed
qed

lemma GetExecutor_after_loading:
  "LoadPluginsFromDir f dir NewManager = (None, manager) \<Longrightarrow>
     GetExecutor manager language = plugin_for f dir language"
  by (auto simp: LoadPluginsFromDir_def GetExecutor_def plugin_for_def loaded_plugins_def
      plugins_after_loading NewManager_def split: if_splits sum.splits option.splits)

lemma Docker_defaults:
  "NewDockerExecutor\<lparr>Docker_Timeout := Local_Timeout NewLocalExecutor,
                      Docker_MemoryLimit := Local_MemoryLimit NewLocalExecutor\<rparr> = NewDockerExecutor"
  by (simp add: NewDockerExecutor_def NewLocalExecutor_def)

text \<open>
  C5: when the plugin directory flag is set and \<^verbatim>\<open>getExecutor\<close> returns an executor, that
  executor is a composite executor whose container switch is the container flag, and for
  every language its \<^verbatim>\<open>Execute\<close> is the \<^verbatim>\<open>Execute\<close> of the plugin that claims the language
  whenever a loaded plugin does (the last one loaded whose manifest lists the language,
  also for a language the built-in executors support), and otherwise that of the Docker
  executor if the container flag was given and of the local executor if not.
\<close>

theorem composite_routing:
  assumes "pluginDir fl \<noteq> []" and "getExecutor f fl = Inr ex"
  shows "\<exists>c. ex = IsComposite c
           \<and> Composite_UseContainer c = containerized fl
           \<and> (\<forall>language code.
                 Executor_Execute w f ex language code
                   = (case plugin_for f (pluginDir fl) language of
                        Some plugin \<Rightarrow> External_Execute w f plugin language code
                      | None \<Rightarrow>
                          if containerized fl
                          then Docker_Execute w NewDockerExecutor language code
                          else Local_Execute w NewLocalExecutor language code))
           \<and> (\<forall>language plugin. plugin_for f (pluginDir fl) language = Some plugin
                 \<longrightarrow> plugin \<in> set (loaded_plugins f (pluginDir fl))
                     \<and> language \<in> set (languages plugin))
           \<and> (\<forall>language. plugin_for f (pluginDir fl) language = None
                 \<longleftrightarrow> (\<forall>plugin \<in> set (loaded_plugins f (pluginDir fl)).
                        language \<notin> set (languages plugin)))"
proof -
  obtain manager where l: "LoadPluginsFromDir f (pluginDir fl) NewManager = (None, manager)"
    and ex: "ex = IsComposite \<lparr>Composite_PluginManager = manager,
                               Composite_LocalExecutor = NewLocalExecutor,
                               Composite_DockerExecutor = NewDockerExecutor,
                               Composite_UseContainer = containerized fl\<rparr>"
    using assms by (auto simp: getExecutor_def split: prod.splits option.splits)
  let ?c = "\<lparr>Composite_PluginManager = manager,
              Composite_LocalExecutor = NewLocalExecutor,
              Composite_DockerExecutor = NewDockerExecutor,
              Composite_UseContainer = containerized fl\<rparr>"
  have g: "GetExecutor manager language = plugin_for f (pluginDir fl) language" for language
    by (rule GetExecutor_after_loading [OF l])
  have r: "Executor_Execute w f ex language code
             = (case plugin_for f (pluginDir fl) language of
                  Some plugin \<Rightarrow> External_Execute w f plugin language code
                | None \<Rightarrow>
                    if containerized fl
                    then Docker_Execute w NewDockerExecutor language code
                    else Local_Execute w NewLocalExecutor language code)" for language code
    by (simp add: ex Executor_Execute_def Composite_Execute_def g Docker_defaults Let_def
        split: option.splits)
  have s: "plugin_for f (pluginDir fl) language = Some plugin
             \<Longrightarrow> plugin \<in> set (loaded_plugins f (pluginDir fl)) \<and> language \<in> set (languages plugin)"
    for language plugin
    using find_SomeD [of "\<lambda>e. language \<in> set (languages e)" "rev (loaded_plugins f (pluginDir fl))" plugin]
    by (simp add: plugin_for_def)
  have n: "plugin_for f (pluginDir fl) language = None
             \<longleftrightarrow> (\<forall>plugin \<in> set (loaded_plugins f (pluginDir fl)).
                    language \<notin> set (languages plugin))" for language
    by (auto simp: plugin_for_def find_None_iff)
  show ?thesis
    using ex r s n by (intro exI [of _ ?c]) simp
qed

lemma one_plugin_loaded:
  "loaded_plugins one_plugin ''plugins''
     = [\<lparr>binaryPath = ''plugins/hello/hello'', languages = [''hello'', ''python'']\<rparr>]"
  by (simp add: loaded_plugins_def one_plugin_def List.map_filter_def LoadPlugin_executor_def
      Join_def hello_manifest_def NewExternalExecutor_def Let_def)

lemma one_plugin_executor:
  "\<exists>ex. getExecutor one_plugin plugin_flags = Inr ex"
  by (simp add: getExecutor_def plugin_flags_def LoadPluginsFromDir_def one_plugin_def
      split: prod.splits option.splits)

text \<open>
  With the \<^verbatim>\<open>hello\<close> plugin loaded and both flags given, \<^verbatim>\<open>python\<close> goes to the plugin and
  \<^verbatim>\<open>go\<close> to the Docker executor.
\<close>

theorem composite_routing_witness:
  "pluginDir plugin_flags \<noteq> []
   \<and> (\<exists>ex. getExecutor one_plugin plugin_flags = Inr ex
        \<and> Executor_Execute exit1_plugin one_plugin ex ''python'' ''print(1)''
            = External_Execute exit1_plugin one_plugin
                \<lparr>binaryPath = ''plugins/hello/hello'', languages = [''hello'', ''python'']\<rparr>
                ''python'' ''print(1)''
        \<and> Executor_Execute exit1_plugin one_plugin ex ''go'' ''package main''
            = Docker_Execute exit1_plugin NewDockerExecutor ''go'' ''package main'')"
proof -
  have a: "pluginDir plugin_flags \<noteq> []"
    by (simp add: plugin_flags_def)
  have d: "pluginDir plugin_flags = ''plugins''" "containerized plugin_flags"
    by (simp_all add: plugin_flags_def)
  obtain ex where b: "getExecutor one_plugin plugin_flags = Inr ex"
    using one_plugin_executor by blast
  have p: "plugin_for one_plugin ''plugins'' ''python''
             = Some \<lparr>binaryPath = ''plugins/hello/hello'', languages = [''hello'', ''python'']\<rparr>"
    and g: "plugin_for one_plugin ''plugins'' ''go'' = None"
    by (simp_all add: plugin_for_def one_plugin_loaded)
  from composite_routing [OF a b, of exit1_plugin]
  have r: "Executor_Execute exit1_plugin one_plugin ex language code
             = (case plugin_for one_plugin (pluginDir plugin_flags) language of
                  Some plugin \<Rightarrow> External_Execute exit1_plugin one_plugin plugin language code
                | None \<Rightarrow>
                    if containerized plugin_flags
                    then Docker_Execute exit1_plugin NewDockerExecutor language code
                    else Local_Execute exit1_plugin NewLocalExecutor language code)"
    for language code
    by blast
  have r1: "Executor_Execute exit1_plugin one_plugin ex ''python'' ''print(1)''
            = External_Execute exit1_plugin one_plugin
                \<lparr>binaryPath = ''plugins/hello/hello'', languages = [''hello'', ''python'']\<rparr>
                ''python'' ''print(1)''"
    unfolding r d p by simp
  have r2: "Executor_Execute exit1_plugin one_plugin ex ''go'' ''package main''
            = Docker_Execute exit1_plugin NewDockerExecutor ''go'' ''package main''"
    unfolding r d g using d(2) by simp
  show ?thesis
    using a b r1 r2 by blast
qed

end
